theory Spec2Isabelle
  imports Main "HOL-Library.Word"
begin

unbundle bit_operations_syntax

section \<open>Client-side volume operations of lib/shared/vdi.c\<close>

text \<open>
  The file under verification is \<^verbatim>\<open>lib/shared/vdi.c\<close>. Every remote operation of that
  file goes through one call, \<^verbatim>\<open>sd_run_sdreq(c, &hdr, data)\<close>, whose body lives in another
  file. The embedding takes that call as a parameter and records each request on a trace,
  so that statements about which requests are sent, in which order and with which fields
  become statements about lists.

  Diagnostics written with \<^verbatim>\<open>fprintf(stderr, ...)\<close> are left out: no operation reads them
  back.
\<close>

subsection \<open>Machine integers\<close>

type_synonym u8 = "8 word"
type_synonym u16 = "16 word"
type_synonym u32 = "32 word"
type_synonym u64 = "64 word"

subsection \<open>Protocol constants\<close>

text \<open>
  Modelled from the spec: the result codes are macros of the header
  \<^verbatim>\<open>sheepdog_proto.h\<close>, which is not among the sources. The spec tells apart success,
  invalid parameters, a system error and the distinguished "no such tag" outcome of a lookup
  ("no object" and "volume is locked" stand for the results of a refused operation);
  the numbers are those of the Sheepdog wire protocol. The C functions return \<^verbatim>\<open>int\<close> and
  the response carries a \<^verbatim>\<open>uint32_t\<close>; both are 32 bits wide and are only ever compared for
  equality or copied, so one 32-bit word type serves for both.
\<close>

definition SD_RES_SUCCESS :: u32 where "SD_RES_SUCCESS = 0x00"
definition SD_RES_NO_OBJ :: u32 where "SD_RES_NO_OBJ = 0x02"
definition SD_RES_INVALID_PARMS :: u32 where "SD_RES_INVALID_PARMS = 0x05"
definition SD_RES_SYSTEM_ERROR :: u32 where "SD_RES_SYSTEM_ERROR = 0x06"
definition SD_RES_VDI_LOCKED :: u32 where "SD_RES_VDI_LOCKED = 0x07"
definition SD_RES_NO_TAG :: u32 where "SD_RES_NO_TAG = 0x0E"

text \<open>
  Modelled from the spec: operation codes and request flags, macros of the same absent
  header, with the values of the wire protocol ("operation code ... a write/read direction
  flag", "a create-on-write variant of the opcode", "a COW flag", "a direct flag").
\<close>

definition SD_OP_CREATE_AND_WRITE_OBJ :: u8 where "SD_OP_CREATE_AND_WRITE_OBJ = 0x01"
definition SD_OP_READ_OBJ :: u8 where "SD_OP_READ_OBJ = 0x02"
definition SD_OP_WRITE_OBJ :: u8 where "SD_OP_WRITE_OBJ = 0x03"
definition SD_OP_NEW_VDI :: u8 where "SD_OP_NEW_VDI = 0x11"
definition SD_OP_LOCK_VDI :: u8 where "SD_OP_LOCK_VDI = 0x12"
definition SD_OP_RELEASE_VDI :: u8 where "SD_OP_RELEASE_VDI = 0x13"
definition SD_OP_GET_VDI_INFO :: u8 where "SD_OP_GET_VDI_INFO = 0x14"

definition SD_FLAG_CMD_WRITE :: u16 where "SD_FLAG_CMD_WRITE = 0x01"
definition SD_FLAG_CMD_COW :: u16 where "SD_FLAG_CMD_COW = 0x02"
definition SD_FLAG_CMD_DIRECT :: u16 where "SD_FLAG_CMD_DIRECT = 0x08"

subsection \<open>Records of the protocol\<close>

text \<open>
  Modelled from the spec: \<^verbatim>\<open>struct sd_inode\<close>, the metadata record of one volume
  generation, is declared in the absent header; the fields kept are the ones the spec lists
  (name, tag, declared size, storage policy, identity) and the snapshot mark. The name and
  the tag are fixed-width character arrays in C and strings here.
\<close>

record sd_inode =
  name :: string
  tag :: string
  snap_ctime :: u64
  vdi_size :: u64
  store_policy :: u8
  vdi_id :: u32

text \<open>
  \<^verbatim>\<open>struct sd_req\<close>, the request header. In C the fields \<^verbatim>\<open>obj.*\<close> and \<^verbatim>\<open>vdi.*\<close> are
  the two arms of a union; every function of the file fills one arm only, so the record
  keeps them side by side. \<^verbatim>\<open>struct sd_req hdr = {}\<close> is \<open>hdr0\<close>.
\<close>

record sd_req =
  opcode :: u8
  flags :: u16
  data_length :: u32
  obj_oid :: u64
  obj_cow_oid :: u64
  obj_offset :: u64
  vdi_vdi_size :: u64
  vdi_base_vdi_id :: u32
  vdi_store_policy :: u8
  vdi_snapid :: u32
  vdi_type :: u32

definition hdr0 :: sd_req where
  "hdr0 = \<lparr>opcode = 0, flags = 0, data_length = 0, obj_oid = 0, obj_cow_oid = 0,
     obj_offset = 0, vdi_vdi_size = 0, vdi_base_vdi_id = 0, vdi_store_policy = 0,
     vdi_snapid = 0, vdi_type = 0\<rparr>"

text \<open>
  The third argument of \<^verbatim>\<open>sd_run_sdreq\<close> is a \<^verbatim>\<open>void *\<close>: a null pointer, a string
  (a volume name or a tag), the two-field lookup buffer that \<^verbatim>\<open>find_vdi\<close> fills, or a
  buffer that receives an inode.
\<close>

datatype sd_data =
  DNull
| DString string
| DLookup string string
| DInode

text \<open>
  What one call of the transport leaves behind. \<open>ret\<close> is the value \<^verbatim>\<open>sd_run_sdreq\<close>
  returns, the transport-level result. The response overwrites the request header
  (\<^verbatim>\<open>rsp = (struct sd_rsp * )&hdr\<close>): \<open>rsp_result\<close> is \<^verbatim>\<open>rsp->result\<close>, the operation-level
  result, and \<open>rsp_vdi_id\<close> is \<^verbatim>\<open>rsp->vdi.vdi_id\<close>. \<open>rsp_inode\<close> is what an inode buffer
  passed as data holds when the call returns; where the transport leaves the buffer alone
  this is its earlier content, which the parameter chooses as well.
\<close>

record sd_reply =
  ret :: u32
  rsp_result :: u32
  rsp_vdi_id :: u32
  rsp_inode :: sd_inode

text \<open>
  Everything \<^verbatim>\<open>vdi.c\<close> takes from elsewhere: the transport, as a function of an abstract
  state \<open>'c\<close> of the connection and the cluster behind it, two inline helpers on identities
  and inodes, and the size and layout constants of the absent headers.
\<close>

record 'c sd_env =
  transport :: "'c \<Rightarrow> sd_req \<Rightarrow> sd_data \<Rightarrow> sd_reply \<times> 'c"
  vid_to_vdi_oid :: "u32 \<Rightarrow> u64"
  vdi_is_snapshot :: "sd_inode \<Rightarrow> bool"
  SD_MAX_VDI_LEN :: u32
  SD_MAX_VDI_TAG_LEN :: u32
  SD_INODE_SIZE :: u32
  SD_INODE_HEADER_SIZE :: u32
  offsetof_tag :: u64
  SD_MAX_VDI_SIZE :: u64
  SD_OLD_MAX_VDI_SIZE :: u64
  LOCK_TYPE_NORMAL :: u32

text \<open>
  \<^verbatim>\<open>struct sd_vdi\<close>, the volume handle. The back pointer \<^verbatim>\<open>vdi->cluster\<close> is the one
  connection of the world below and is not stored. \<^verbatim>\<open>vdi->inode\<close> points to memory from
  \<^verbatim>\<open>xmalloc\<close>: \<open>None\<close> until something has been read into it. The handle's own lock field
  is initialised and destroyed but never taken in this file.
\<close>

record sd_vdi =
  name :: string
  vid :: u32
  inode :: "sd_inode option"

text \<open>
  The state the operations run in: the connection with the cluster behind it, the requests
  sent so far (oldest first), the handles that are allocated, the next address
  \<^verbatim>\<open>xzalloc\<close> hands out, and \<^verbatim>\<open>errno\<close>.
\<close>

record 'c world =
  remote :: 'c
  trace :: "(sd_req \<times> sd_data) list"
  heap :: "nat \<rightharpoonup> sd_vdi"
  next_addr :: nat
  errno :: u32

subsection \<open>The transport call\<close>

text \<open>
  \<^verbatim>\<open>sd_run_sdreq\<close>: hands the request to the transport, which answers and moves the
  connection to its next state; the request is appended to the trace.
\<close>

definition sd_run_sdreq ::
  "'c sd_env \<Rightarrow> sd_req \<Rightarrow> sd_data \<Rightarrow> 'c world \<Rightarrow> sd_reply \<times> 'c world" where
  "sd_run_sdreq E hdr data w =
     (let (r, c') = transport E (remote w) hdr data
      in (r, w\<lparr>remote := c', trace := trace w @ [(hdr, data)]\<rparr>))"

subsection \<open>Locking\<close>

text \<open>
  \<^verbatim>\<open>lock_vdi\<close> and \<^verbatim>\<open>unlock_vdi\<close> take a pointer to the handle. A pointer that does not
  point to an allocated handle is undefined behaviour in C and \<open>None\<close> here.
\<close>

definition lock_vdi :: "'c sd_env \<Rightarrow> nat \<Rightarrow> 'c world \<Rightarrow> (u32 \<times> 'c world) option" where
  "lock_vdi E p w =
     (case heap w p of
        None \<Rightarrow> None
      | Some vdi \<Rightarrow>
          let hdr = hdr0\<lparr>opcode := SD_OP_LOCK_VDI,
                         data_length := SD_MAX_VDI_LEN E,
                         flags := SD_FLAG_CMD_WRITE\<rparr>;
              (r, w1) = sd_run_sdreq E hdr (DString (sd_vdi.name vdi)) w
          in if ret r \<noteq> SD_RES_SUCCESS then Some (ret r, w1)
             else Some (SD_RES_SUCCESS,
                        w1\<lparr>heap := (heap w1)(p \<mapsto> vdi\<lparr>vid := rsp_vdi_id r\<rparr>)\<rparr>))"

definition unlock_vdi :: "'c sd_env \<Rightarrow> nat \<Rightarrow> 'c world \<Rightarrow> (u32 \<times> 'c world) option" where
  "unlock_vdi E p w =
     (case heap w p of
        None \<Rightarrow> None
      | Some vdi \<Rightarrow>
          let hdr = hdr0\<lparr>opcode := SD_OP_RELEASE_VDI,
                         vdi_type := LOCK_TYPE_NORMAL E,
                         vdi_base_vdi_id := vid vdi\<rparr>;
              (r, w1) = sd_run_sdreq E hdr DNull w
          in if ret r \<noteq> SD_RES_SUCCESS then Some (ret r, w1)
             else Some (SD_RES_SUCCESS, w1))"

subsection \<open>Allocation of handles\<close>

text \<open>
  \<^verbatim>\<open>alloc_vdi\<close>: \<^verbatim>\<open>xzalloc\<close> gives zeroed memory (it aborts the process rather than
  return a null pointer), so the identity starts at 0; the inode buffer comes from
  \<^verbatim>\<open>xmalloc\<close> and is not initialised.
\<close>

definition alloc_vdi :: "string \<Rightarrow> 'c world \<Rightarrow> nat \<times> 'c world" where
  "alloc_vdi nm w =
     (let p = next_addr w
      in (p, w\<lparr>heap := (heap w)(p \<mapsto> \<lparr>name = nm, vid = 0, inode = None\<rparr>),
               next_addr := Suc p\<rparr>))"

definition free_vdi :: "nat \<Rightarrow> 'c world \<Rightarrow> 'c world" where
  "free_vdi p w = w\<lparr>heap := (heap w)(p := None)\<rparr>"

subsection \<open>Opening and closing a volume\<close>

text \<open>
  The two exit labels of \<^verbatim>\<open>sd_vdi_open\<close>: \<^verbatim>\<open>out_unlock\<close> falls through into
  \<^verbatim>\<open>out_free\<close>; the result of \<^verbatim>\<open>unlock_vdi\<close> is dropped. \<open>None\<close> in the pair is the
  null pointer the function returns.
\<close>

definition out_free :: "nat \<Rightarrow> 'c world \<Rightarrow> (nat option \<times> 'c world) option" where
  "out_free p w = Some (None, free_vdi p w)"

definition out_unlock ::
  "'c sd_env \<Rightarrow> nat \<Rightarrow> 'c world \<Rightarrow> (nat option \<times> 'c world) option" where
  "out_unlock E p w =
     (case unlock_vdi E p w of
        None \<Rightarrow> None
      | Some (r, w') \<Rightarrow> out_free p w')"

definition sd_vdi_open ::
  "'c sd_env \<Rightarrow> string \<Rightarrow> 'c world \<Rightarrow> (nat option \<times> 'c world) option" where
  "sd_vdi_open E nm w =
     (let (p, w0) = alloc_vdi nm w
      in case lock_vdi E p w0 of
           None \<Rightarrow> None
         | Some (r, w1) \<Rightarrow>
             if r \<noteq> SD_RES_SUCCESS then out_free p (w1\<lparr>errno := r\<rparr>)
             else
               (case heap w1 p of
                  None \<Rightarrow> None
                | Some new \<Rightarrow>
                    let hdr = hdr0\<lparr>opcode := SD_OP_READ_OBJ,
                                   data_length := SD_INODE_SIZE E,
                                   obj_oid := vid_to_vdi_oid E (vid new),
                                   obj_offset := 0\<rparr>;
                        (rp, w2) = sd_run_sdreq E hdr DInode w1;
                        w3 = w2\<lparr>heap := (heap w2)(p \<mapsto> new\<lparr>inode := Some (rsp_inode rp)\<rparr>)\<rparr>
                    in if ret rp \<noteq> SD_RES_SUCCESS then out_unlock E p (w3\<lparr>errno := ret rp\<rparr>)
                       else if vdi_is_snapshot E (rsp_inode rp)
                       then out_unlock E p (w3\<lparr>errno := SD_RES_INVALID_PARMS\<rparr>)
                       else Some (Some p, w3)))"

definition sd_vdi_close :: "'c sd_env \<Rightarrow> nat \<Rightarrow> 'c world \<Rightarrow> (u32 \<times> 'c world) option" where
  "sd_vdi_close E p w =
     (case unlock_vdi E p w of
        None \<Rightarrow> None
      | Some (r, w1) \<Rightarrow>
          if r \<noteq> SD_RES_SUCCESS then Some (r, w1)
          else Some (0, free_vdi p w1))"

subsection \<open>Creating volumes, reading and writing objects\<close>

text \<open>
  \<^verbatim>\<open>do_vdi_create\<close>. The out-parameter \<^verbatim>\<open>vdi_id\<close> is a flag (is the pointer non-null)
  on the way in and the value stored through it, if any, on the way out.
\<close>

definition do_vdi_create ::
  "'c sd_env \<Rightarrow> string \<Rightarrow> u64 \<Rightarrow> u32 \<Rightarrow> bool \<Rightarrow> bool \<Rightarrow> u8 \<Rightarrow> 'c world
     \<Rightarrow> u32 \<times> u32 option \<times> 'c world" where
  "do_vdi_create E nm vdi_sz base_vid vdi_id_ptr snapshot policy w =
     (let hdr = hdr0\<lparr>opcode := SD_OP_NEW_VDI,
                    flags := SD_FLAG_CMD_WRITE,
                    data_length := SD_MAX_VDI_LEN E,
                    vdi_base_vdi_id := base_vid,
                    vdi_snapid := (if snapshot then 1 else 0),
                    vdi_vdi_size := vdi_sz,
                    vdi_store_policy := policy\<rparr>;
          (r, w1) = sd_run_sdreq E hdr (DString nm) w
      in if ret r \<noteq> SD_RES_SUCCESS then (ret r, None, w1)
         else (SD_RES_SUCCESS, if vdi_id_ptr then Some (rsp_vdi_id r) else None, w1))"

text \<open>
  \<^verbatim>\<open>write_object\<close>. The parameter \<^verbatim>\<open>flags\<close> is 32 bits wide and the header field 16:
  the assignment truncates.
\<close>

definition write_object ::
  "'c sd_env \<Rightarrow> u64 \<Rightarrow> u64 \<Rightarrow> sd_data \<Rightarrow> u32 \<Rightarrow> u64 \<Rightarrow> u32 \<Rightarrow> bool \<Rightarrow> bool \<Rightarrow> 'c world
     \<Rightarrow> u32 \<times> 'c world" where
  "write_object E oid cow_oid data datalen offset fl create direct w =
     (let hdr1 = hdr0\<lparr>opcode := (if create then SD_OP_CREATE_AND_WRITE_OBJ
                                  else SD_OP_WRITE_OBJ),
                     data_length := datalen,
                     flags := ucast (fl OR ucast SD_FLAG_CMD_WRITE)\<rparr>;
          hdr2 = (if cow_oid \<noteq> 0 then hdr1\<lparr>flags := flags hdr1 OR SD_FLAG_CMD_COW\<rparr>
                  else hdr1);
          hdr3 = (if direct then hdr2\<lparr>flags := flags hdr2 OR SD_FLAG_CMD_DIRECT\<rparr>
                  else hdr2);
          hdr = hdr3\<lparr>obj_oid := oid, obj_cow_oid := cow_oid, obj_offset := offset\<rparr>;
          (r, w1) = sd_run_sdreq E hdr data w
      in if ret r \<noteq> SD_RES_SUCCESS then (ret r, w1)
         else if rsp_result r \<noteq> SD_RES_SUCCESS then (rsp_result r, w1)
         else (SD_RES_SUCCESS, w1))"

text \<open>
  \<^verbatim>\<open>read_object\<close>, always called here on an inode buffer: the second component is what
  the buffer holds on return.
\<close>

definition read_object ::
  "'c sd_env \<Rightarrow> u64 \<Rightarrow> u32 \<Rightarrow> u64 \<Rightarrow> bool \<Rightarrow> 'c world \<Rightarrow> u32 \<times> sd_inode \<times> 'c world" where
  "read_object E oid datalen offset direct w =
     (let hdr1 = hdr0\<lparr>opcode := SD_OP_READ_OBJ,
                     data_length := datalen,
                     obj_oid := oid,
                     obj_offset := offset\<rparr>;
          hdr = (if direct then hdr1\<lparr>flags := flags hdr1 OR SD_FLAG_CMD_DIRECT\<rparr>
                 else hdr1);
          (r, w1) = sd_run_sdreq E hdr DInode w
      in if ret r \<noteq> SD_RES_SUCCESS then (ret r, rsp_inode r, w1)
         else if rsp_result r \<noteq> SD_RES_SUCCESS then (rsp_result r, rsp_inode r, w1)
         else (SD_RES_SUCCESS, rsp_inode r, w1))"

text \<open>
  What \<open>write_object\<close> and \<open>read_object\<close> return for a reply (lines 255 to 261 and 279 to
  285), and \<open>find_vdi\<close> as well (lines 306 to 312): the transport-level result when it is
  not success, the operation-level result otherwise.
\<close>

definition checked_result :: "sd_reply \<Rightarrow> u32" where
  "checked_result r = (if ret r \<noteq> SD_RES_SUCCESS then ret r else rsp_result r)"

subsection \<open>Lookup by name and tag\<close>

text \<open>
  Modelled from the spec: \<^verbatim>\<open>pstrcpy(buf, buf_size, str)\<close> is a helper of another file;
  the spec speaks of "a fixed-width name field and, optionally, a fixed-width tag field".
  It copies at most \<open>buf_size - 1\<close> characters and terminates the copy.
\<close>

definition pstrcpy :: "nat \<Rightarrow> string \<Rightarrow> string" where
  "pstrcpy buf_size str = take (buf_size - 1) str"

text \<open>
  \<^verbatim>\<open>find_vdi\<close>. The buffer is zeroed first, so an absent tag leaves an empty tag field.
  The out-parameter \<^verbatim>\<open>vid\<close> is treated as in \<open>do_vdi_create\<close>: \<open>None\<close> on the way out
  means nothing was stored through it.
\<close>

definition find_vdi ::
  "'c sd_env \<Rightarrow> string \<Rightarrow> string option \<Rightarrow> bool \<Rightarrow> 'c world
     \<Rightarrow> u32 \<times> u32 option \<times> 'c world" where
  "find_vdi E nm tg vid_ptr w =
     (let buf = DLookup (pstrcpy (unat (SD_MAX_VDI_LEN E)) nm)
                        (case tg of
                           None \<Rightarrow> []
                         | Some t \<Rightarrow> pstrcpy (unat (SD_MAX_VDI_TAG_LEN E)) t);
          hdr = hdr0\<lparr>opcode := SD_OP_GET_VDI_INFO,
                    data_length := SD_MAX_VDI_LEN E + SD_MAX_VDI_TAG_LEN E,
                    flags := SD_FLAG_CMD_WRITE\<rparr>;
          (r, w1) = sd_run_sdreq E hdr buf w
      in if ret r \<noteq> SD_RES_SUCCESS then (ret r, None, w1)
         else (rsp_result r,
               if rsp_result r = SD_RES_SUCCESS \<and> vid_ptr then Some (rsp_vdi_id r) else None,
               w1))"

text \<open>
  \<^verbatim>\<open>vdi_read_inode\<close>. The local \<^verbatim>\<open>vid\<close> is not initialised; reading it before
  \<open>find_vdi\<close> has stored into it would be undefined behaviour, the outer \<open>None\<close>. The inode
  buffer of the caller is not initialised either: the middle component is \<open>None\<close> as long
  as nothing has been read into it.
\<close>

definition vdi_read_inode ::
  "'c sd_env \<Rightarrow> string \<Rightarrow> string option \<Rightarrow> bool \<Rightarrow> 'c world
     \<Rightarrow> (u32 \<times> sd_inode option \<times> 'c world) option" where
  "vdi_read_inode E nm tg onlyheader w =
     (let (r, v, w1) = find_vdi E nm tg True w
      in if r \<noteq> SD_RES_SUCCESS then Some (r, None, w1)
         else
           (case v of
              None \<Rightarrow> None
            | Some vid' \<Rightarrow>
                let len = (if onlyheader then SD_INODE_HEADER_SIZE E else SD_INODE_SIZE E);
                    (r2, buf, w2) = read_object E (vid_to_vdi_oid E vid') len 0 True w1
                in Some (r2, Some buf, w2)))"

subsection \<open>Snapshot, create, clone\<close>

text \<open>
  Lines 372 to 394 of \<^verbatim>\<open>sd_vdi_snapshot\<close>, the part after the inode header has been
  read: the policy check, the write of the tag into the header object, the creation of the
  new head. The write hands over the tag string with the length of the whole tag field;
  the bytes that follow the string in memory are not part of the model.
\<close>

definition snapshot_freeze :: "'c sd_env \<Rightarrow> string \<Rightarrow> sd_inode \<Rightarrow> 'c world \<Rightarrow> u32 \<times> 'c world" where
  "snapshot_freeze E snap_tag ino w =
     (if store_policy ino \<noteq> 0 then (SD_RES_INVALID_PARMS, w)
      else
        let (r, w1) = write_object E (vid_to_vdi_oid E (vdi_id ino)) 0 (DString snap_tag)
                        (SD_MAX_VDI_TAG_LEN E) (offsetof_tag E) 0 False False w
        in if r \<noteq> SD_RES_SUCCESS then (r, w1)
           else
             let (r2, v, w2) = do_vdi_create E (sd_inode.name ino) (vdi_size ino) (vdi_id ino)
                                 False True 0 w1
             in (r2, w2))"

text \<open>
  \<^verbatim>\<open>sd_vdi_snapshot\<close>. Both strings may be null pointers (\<open>None\<close>). The outer \<open>None\<close> of
  the result stands for undefined behaviour (a read of the uninitialised header buffer).
\<close>

definition sd_vdi_snapshot ::
  "'c sd_env \<Rightarrow> string option \<Rightarrow> string option \<Rightarrow> 'c world \<Rightarrow> (u32 \<times> 'c world) option" where
  "sd_vdi_snapshot E nm snap_tag w =
     (case snap_tag of
        None \<Rightarrow> Some (SD_RES_INVALID_PARMS, w)
      | Some t \<Rightarrow>
          if t = [] then Some (SD_RES_INVALID_PARMS, w)
          else
            (case nm of
               None \<Rightarrow> Some (SD_RES_INVALID_PARMS, w)
             | Some n \<Rightarrow>
                 if n = [] then Some (SD_RES_INVALID_PARMS, w)
                 else
                   let (r, v, w1) = find_vdi E n (Some t) False w
                   in if r = SD_RES_SUCCESS then Some (SD_RES_INVALID_PARMS, w1)
                      else if r = SD_RES_NO_TAG then
                        (case vdi_read_inode E n None True w1 of
                           None \<Rightarrow> None
                         | Some (r2, buf, w2) \<Rightarrow>
                             if r2 \<noteq> SD_RES_SUCCESS then Some (r2, w2)
                             else
                               (case buf of
                                  None \<Rightarrow> None
                                | Some ino \<Rightarrow> Some (snapshot_freeze E t ino w2)))
                      else Some (r, w1)))"

definition sd_vdi_create ::
  "'c sd_env \<Rightarrow> string option \<Rightarrow> u64 \<Rightarrow> 'c world \<Rightarrow> u32 \<times> 'c world" where
  "sd_vdi_create E nm sz w =
     (if sz > SD_MAX_VDI_SIZE E then (SD_RES_INVALID_PARMS, w)
      else if sz = 0 then (SD_RES_INVALID_PARMS, w)
      else
        (case nm of
           None \<Rightarrow> (SD_RES_INVALID_PARMS, w)
         | Some n \<Rightarrow>
             if n = [] then (SD_RES_INVALID_PARMS, w)
             else
               let policy = (if sz > SD_OLD_MAX_VDI_SIZE E then 1 else 0);
                   (r, v, w1) = do_vdi_create E n sz 0 False False policy w
               in (r, w1)))"

text \<open>
  \<^verbatim>\<open>sd_vdi_clone\<close>. The inode buffer is allocated after the three checks and released
  at the label \<^verbatim>\<open>out\<close> on every path; it never leaves the function and is not kept in the
  heap of handles.
\<close>

definition sd_vdi_clone ::
  "'c sd_env \<Rightarrow> string option \<Rightarrow> string option \<Rightarrow> string option \<Rightarrow> 'c world
     \<Rightarrow> (u32 \<times> 'c world) option" where
  "sd_vdi_clone E srcname srctag dstname w =
     (case dstname of
        None \<Rightarrow> Some (SD_RES_INVALID_PARMS, w)
      | Some d \<Rightarrow>
          if d = [] then Some (SD_RES_INVALID_PARMS, w)
          else
            (case srctag of
               None \<Rightarrow> Some (SD_RES_INVALID_PARMS, w)
             | Some t \<Rightarrow>
                 if t = [] then Some (SD_RES_INVALID_PARMS, w)
                 else
                   (case srcname of
                      None \<Rightarrow> Some (SD_RES_INVALID_PARMS, w)
                    | Some n \<Rightarrow>
                        if n = [] then Some (SD_RES_INVALID_PARMS, w)
                        else
                          (case vdi_read_inode E n (Some t) False w of
                             None \<Rightarrow> None
                           | Some (r, buf, w1) \<Rightarrow>
                               if r \<noteq> SD_RES_SUCCESS then Some (r, w1)
                               else
                                 (case buf of
                                    None \<Rightarrow> None
                                  | Some ino \<Rightarrow>
                                      let (r2, v, w2) =
                                            do_vdi_create E d (vdi_size ino) (vdi_id ino)
                                              False False (store_policy ino) w1
                                      in Some (r2, w2))))))"

subsection \<open>The request queue\<close>

text \<open>
  \<^verbatim>\<open>struct sd_request\<close>, one pending read or write: the completion signal's descriptor,
  the address of the buffer, length, offset, direction, the handle and the result slot
  (the field names carry the prefix \<open>req_\<close>, since \<open>length\<close> and \<open>ret\<close> are taken).
\<close>

record sd_request =
  req_efd :: int
  req_data :: nat
  req_length :: u64
  req_offset :: u64
  req_write :: bool
  req_vdi :: nat
  req_ret :: u32

text \<open>
  Modelled from the spec: the reader/writer lock, the list and the counting signal belong
  to other files. "An ordered, shared list of Pending Requests guarded by a reader/writer
  lock"; "a shared counting signal". A lock is free, held by one writer (the number names
  the thread that holds it), or held by a number of readers; the counting signal is a
  counter to which a notification adds its argument.
\<close>

datatype sd_rw_lock = Unlocked | WriteLocked nat | ReadLocked nat

text \<open>
  The four calls that \<^verbatim>\<open>queue_request\<close> makes. Several threads run \<^verbatim>\<open>queue_request\<close>
  at once and a thread can be interrupted between any two of its calls, so the calls, not
  the function, are the steps of the model.
\<close>

datatype q_op = SdWriteLock | ListAddTail sd_request | SdRwUnlock | EventfdXwrite nat

text \<open>
  One entry of the record of what happened: the thread, the call it made, and the state
  of the lock at the moment the call took effect.
\<close>

type_synonym q_event = "nat \<times> q_op \<times> sd_rw_lock"

text \<open>
  The fields of \<^verbatim>\<open>struct sd_cluster\<close> that \<^verbatim>\<open>queue_request\<close> touches, and the record of
  events, which the C code does not have and which no call reads.
\<close>

record sd_cluster =
  request_lock :: sd_rw_lock
  request_list :: "sd_request list"
  request_fd :: nat
  events :: "q_event list"

text \<open>
  Modelled from the spec: \<^verbatim>\<open>sd_write_lock\<close> takes the lock exclusively. It takes effect
  only when the lock is free; on a lock that is held the caller waits (\<open>None\<close>: no step
  now).
\<close>

definition sd_write_lock :: "nat \<Rightarrow> sd_cluster \<Rightarrow> sd_cluster option" where
  "sd_write_lock i c =
     (case request_lock c of
        Unlocked \<Rightarrow> Some (c\<lparr>request_lock := WriteLocked i\<rparr>)
      | WriteLocked j \<Rightarrow> None
      | ReadLocked n \<Rightarrow> None)"

text \<open>
  Modelled from the spec: \<^verbatim>\<open>sd_rw_unlock\<close> gives up one hold of the lock; on a lock that
  is not held the call is an error (\<open>None\<close>).
\<close>

definition sd_rw_unlock :: "sd_cluster \<Rightarrow> sd_cluster option" where
  "sd_rw_unlock c =
     (case request_lock c of
        Unlocked \<Rightarrow> None
      | WriteLocked j \<Rightarrow> Some (c\<lparr>request_lock := Unlocked\<rparr>)
      | ReadLocked n \<Rightarrow>
          Some (c\<lparr>request_lock := (if n \<le> 1 then Unlocked else ReadLocked (n - 1))\<rparr>))"

text \<open>Modelled from the spec: \<^verbatim>\<open>list_add_tail\<close> appends at the tail of the list.\<close>

definition list_add_tail :: "sd_request \<Rightarrow> sd_cluster \<Rightarrow> sd_cluster" where
  "list_add_tail req c = c\<lparr>request_list := request_list c @ [req]\<rparr>"

text \<open>
  Modelled from the spec: \<^verbatim>\<open>eventfd_xwrite(fd, n)\<close> notifies the counting signal with
  \<open>n\<close> units.
\<close>

definition eventfd_xwrite :: "nat \<Rightarrow> sd_cluster \<Rightarrow> sd_cluster" where
  "eventfd_xwrite n c = c\<lparr>request_fd := request_fd c + n\<rparr>"

text \<open>
  Thread \<open>i\<close> makes one call: the call takes effect, if it can, and is entered in the
  record of events together with the state of the lock it found.
\<close>

definition exec_op :: "nat \<Rightarrow> q_op \<Rightarrow> sd_cluster \<Rightarrow> sd_cluster option" where
  "exec_op i op c =
     (case (case op of
              SdWriteLock \<Rightarrow> sd_write_lock i c
            | ListAddTail r \<Rightarrow> Some (list_add_tail r c)
            | SdRwUnlock \<Rightarrow> sd_rw_unlock c
            | EventfdXwrite n \<Rightarrow> Some (eventfd_xwrite n c)) of
        None \<Rightarrow> None
      | Some c' \<Rightarrow> Some (c'\<lparr>events := events c @ [(i, op, request_lock c)]\<rparr>))"

text \<open>
  \<^verbatim>\<open>queue_request\<close>, lines 121 to 125, with \<^verbatim>\<open>c = req->vdi->cluster\<close> the one cluster of
  the model: take the lock in write mode, append the request, release the lock, notify the
  counting signal with 1.
\<close>

definition queue_request :: "sd_request \<Rightarrow> q_op list" where
  "queue_request req = [SdWriteLock, ListAddTail req, SdRwUnlock, EventfdXwrite 1]"

text \<open>
  Threads that run side by side: the shared cluster, and for every thread the calls it
  has still to make. A step of thread \<open>i\<close> makes its next call; a thread with nothing left,
  or one that waits for the lock, makes no step.
\<close>

record q_sys =
  q_cluster :: sd_cluster
  q_rest :: "nat \<Rightarrow> q_op list"

definition q_step :: "nat \<Rightarrow> q_sys \<Rightarrow> q_sys option" where
  "q_step i s =
     (case q_rest s i of
        [] \<Rightarrow> None
      | op # rest \<Rightarrow>
          (case exec_op i op (q_cluster s) of
             None \<Rightarrow> None
           | Some c' \<Rightarrow> Some (s\<lparr>q_cluster := c', q_rest := (q_rest s)(i := rest)\<rparr>)))"

text \<open>
  A run under a schedule, the list of the threads that are given the processor one after
  another. A thread that is scheduled and cannot step leaves everything as it is. Every
  interleaving of the threads is the run of some schedule.
\<close>

fun q_run :: "nat list \<Rightarrow> q_sys \<Rightarrow> q_sys" where
  "q_run [] s = s"
| "q_run (i # sch) s =
     q_run sch (case q_step i s of None \<Rightarrow> s | Some s' \<Rightarrow> s')"

text \<open>
  The start: thread \<open>i\<close> is about to call \<^verbatim>\<open>queue_request\<close> on the \<open>i\<close>-th of the given
  requests, and nothing has happened yet.
\<close>

definition q_init :: "sd_cluster \<Rightarrow> sd_request list \<Rightarrow> q_sys" where
  "q_init c reqs =
     \<lparr>q_cluster = c\<lparr>events := []\<rparr>,
      q_rest = (\<lambda>i. if i < length reqs then queue_request (reqs ! i) else [])\<rparr>"

text \<open>
  Read off the record of events: the requests that were appended, in the order of the
  appends, and the calls that thread \<open>i\<close> has made, in the order it made them.
\<close>

fun appended :: "q_event list \<Rightarrow> sd_request list" where
  "appended [] = []"
| "appended ((i, ListAddTail r, l) # es) = r # appended es"
| "appended (e # es) = appended es"

definition done_by :: "nat \<Rightarrow> q_event list \<Rightarrow> q_op list" where
  "done_by i es = map (\<lambda>e. fst (snd e)) (filter (\<lambda>e. fst e = i) es)"

text \<open>
  What holds in every state of every run: a thread's calls made and left make up
  \<^verbatim>\<open>queue_request\<close> on its request; the lock is held by thread \<open>i\<close> exactly while \<open>i\<close> is
  between its first and its third call; appends happened under the caller's own write
  lock; the list and the counter are the initial ones plus what the record of events
  shows.
\<close>

definition q_inv :: "sd_cluster \<Rightarrow> sd_request list \<Rightarrow> q_sys \<Rightarrow> bool" where
  "q_inv c0 reqs s \<longleftrightarrow>
     (\<forall>i. done_by i (events (q_cluster s)) @ q_rest s i =
            (if i < length reqs then queue_request (reqs ! i) else [])) \<and>
     (\<forall>i. request_lock (q_cluster s) = WriteLocked i \<longleftrightarrow>
            length (q_rest s i) = 3 \<or> length (q_rest s i) = 2) \<and>
     (request_lock (q_cluster s) = Unlocked \<or> (\<exists>j. request_lock (q_cluster s) = WriteLocked j)) \<and>
     (\<forall>e \<in> set (events (q_cluster s)).
        \<forall>r. fst (snd e) = ListAddTail r \<longrightarrow> snd (snd e) = WriteLocked (fst e)) \<and>
     request_list (q_cluster s) = request_list c0 @ appended (events (q_cluster s)) \<and>
     request_fd (q_cluster s) = request_fd c0 + card {i. i < length reqs \<and> q_rest s i = []}"

subsection \<open>A sample environment\<close>

text \<open>
  A transport that answers from a script, one reply per request, and fails at the
  transport level once the script is used up; an environment around it with sample values
  for the helpers and sizes; a world with no handle allocated. They serve to run the operations
  on concrete inputs.
\<close>

definition scripted :: "sd_reply list \<Rightarrow> sd_req \<Rightarrow> sd_data \<Rightarrow> sd_reply \<times> sd_reply list" where
  "scripted c hdr d =
     (case c of
        [] \<Rightarrow> (\<lparr>ret = SD_RES_SYSTEM_ERROR, rsp_result = 0, rsp_vdi_id = 0,
                 rsp_inode = \<lparr>sd_inode.name = [], tag = [], snap_ctime = 0, vdi_size = 0,
                               store_policy = 0, vdi_id = 0\<rparr>\<rparr>, [])
      | r # rs \<Rightarrow> (r, rs))"

definition sample_env :: "sd_reply list sd_env" where
  "sample_env =
     \<lparr>transport = scripted,
      vid_to_vdi_oid = (\<lambda>v. push_bit 63 1 OR push_bit 32 (ucast v)),
      vdi_is_snapshot = (\<lambda>i. snap_ctime i \<noteq> 0),
      SD_MAX_VDI_LEN = 256,
      SD_MAX_VDI_TAG_LEN = 256,
      SD_INODE_SIZE = 4198968,
      SD_INODE_HEADER_SIZE = 4664,
      offsetof_tag = 256,
      SD_MAX_VDI_SIZE = 2 ^ 54,
      SD_OLD_MAX_VDI_SIZE = 2 ^ 42,
      LOCK_TYPE_NORMAL = 0\<rparr>"

definition sample_world :: "sd_reply list \<Rightarrow> sd_reply list world" where
  "sample_world rs = \<lparr>remote = rs, trace = [], heap = Map.empty, next_addr = 0, errno = 0\<rparr>"

text \<open>An inode as the store would return it, and a reply that carries it.\<close>

definition sample_inode :: "string \<Rightarrow> u8 \<Rightarrow> u64 \<Rightarrow> sd_inode" where
  "sample_inode nm policy ctime =
     \<lparr>sd_inode.name = nm, tag = [], snap_ctime = ctime, vdi_size = 4096,
      store_policy = policy, vdi_id = 7\<rparr>"

definition reply :: "u32 \<Rightarrow> u32 \<Rightarrow> u32 \<Rightarrow> sd_inode \<Rightarrow> sd_reply" where
  "reply r res v ino = \<lparr>ret = r, rsp_result = res, rsp_vdi_id = v, rsp_inode = ino\<rparr>"

text \<open>
  The replies to a snapshot that goes all the way: the tag is not yet known, the head is
  found under identity 7, its header comes back with the stored name and policy given,
  the write of the tag and the creation of the new head succeed.
\<close>

definition snapshot_script :: "string \<Rightarrow> u8 \<Rightarrow> sd_reply list" where
  "snapshot_script stored policy =
     [reply 0 SD_RES_NO_TAG 0 (sample_inode [] 0 0),
      reply 0 0 7 (sample_inode [] 0 0),
      reply 0 0 0 (sample_inode stored policy 0),
      reply 0 0 0 (sample_inode [] 0 0),
      reply 0 0 8 (sample_inode [] 0 0)]"

text \<open>
  The replies to a clone that goes all the way: the source is found under identity 7, its
  inode comes back with the large-volume policy, the creation succeeds.
\<close>

definition clone_script :: "sd_reply list" where
  "clone_script =
     [reply 0 0 7 (sample_inode [] 0 0),
      reply 0 0 0 (sample_inode ''vol1'' 1 5),
      reply 0 0 9 (sample_inode [] 0 0)]"

text \<open>A world in which the volume \<open>vol1\<close> is open under the handle at address 0.\<close>

definition open_handle_world :: "sd_reply list \<Rightarrow> sd_reply list world" where
  "open_handle_world rs =
     \<lparr>remote = rs, trace = [],
      heap = [0 \<mapsto> \<lparr>name = ''vol1'', vid = 7, inode = Some (sample_inode ''vol1'' 0 0)\<rparr>],
      next_addr = 1, errno = 0\<rparr>"

text \<open>A queue with nothing pending, and a read request of 4096 bytes at offset 0.\<close>

definition sample_cluster :: sd_cluster where
  "sample_cluster = \<lparr>request_lock = Unlocked, request_list = [], request_fd = 0, events = []\<rparr>"

definition sample_request :: "int \<Rightarrow> sd_request" where
  "sample_request fd =
     \<lparr>req_efd = fd, req_data = 0, req_length = 4096, req_offset = 0, req_write = False,
      req_vdi = 0, req_ret = 0\<rparr>"

section \<open>Properties\<close>

subsection \<open>Auxiliary facts\<close>

lemmas sd_res_defs =
  SD_RES_SUCCESS_def SD_RES_NO_OBJ_def SD_RES_INVALID_PARMS_def SD_RES_SYSTEM_ERROR_def
  SD_RES_VDI_LOCKED_def SD_RES_NO_TAG_def

lemmas sd_op_defs =
  SD_OP_CREATE_AND_WRITE_OBJ_def SD_OP_READ_OBJ_def SD_OP_WRITE_OBJ_def
  SD_OP_NEW_VDI_def SD_OP_LOCK_VDI_def SD_OP_RELEASE_VDI_def SD_OP_GET_VDI_INFO_def

lemmas sd_flag_defs =
  SD_FLAG_CMD_WRITE_def SD_FLAG_CMD_COW_def SD_FLAG_CMD_DIRECT_def

lemmas sample_defs =
  sample_env_def sample_world_def sample_inode_def reply_def scripted_def


lemmas q_defs =
  q_init_def q_step_def exec_op_def sd_write_lock_def sd_rw_unlock_def list_add_tail_def
  eventfd_xwrite_def queue_request_def sample_cluster_def

text \<open>The scripted transport answers with the head of the script.\<close>

lemma scripted_first:
  "transport sample_env (remote (sample_world (a # rs))) h d = (a, rs)"
  by (simp add: sample_env_def sample_world_def scripted_def)

lemma scripted_next:
  "transport sample_env (a # rs) h d = (a, rs)"
  by (simp add: sample_env_def scripted_def)

lemma sd_run_sdreq_eq:
  "transport E (remote w) hdr d = (r, c') \<Longrightarrow>
   sd_run_sdreq E hdr d w = (r, w\<lparr>remote := c', trace := trace w @ [(hdr, d)]\<rparr>)"
  by (simp add: sd_run_sdreq_def)

lemma sd_run_sdreq_frame:
  "sd_run_sdreq E hdr d w = (r, w1) \<Longrightarrow>
   trace w1 = trace w @ [(hdr, d)] \<and> heap w1 = heap w \<and>
   next_addr w1 = next_addr w \<and> errno w1 = errno w"
  by (auto simp add: sd_run_sdreq_def split: prod.splits)

subsection \<open>Local validation in create\<close>

text \<open>
  C8. \<^verbatim>\<open>sd_vdi_create(c, name, size)\<close> with size 0, with a size above the maximum volume
  size, or with a null or empty name returns the invalid-parameters code at once: the world
  comes back as it was, so its trace has no new request.
\<close>

theorem sd_vdi_create_rejects:
  "sz = 0 \<or> sz > SD_MAX_VDI_SIZE E \<or> nm = None \<or> nm = Some [] \<Longrightarrow>
   sd_vdi_create E nm sz w = (SD_RES_INVALID_PARMS, w)"
  by (auto simp add: sd_vdi_create_def)

theorem sd_vdi_create_rejects_witness:
  "sd_vdi_create sample_env (Some ''vol1'') 0 (sample_world []) =
     (SD_RES_INVALID_PARMS, sample_world [])"
  using sd_vdi_create_rejects [of 0 sample_env "Some ''vol1''" "sample_world []"] by simp

subsection \<open>The request that create sends\<close>

lemma do_vdi_create_frame:
  "do_vdi_create E nm vs base ptr snap pol w = (r, v, w1) \<Longrightarrow>
   trace w1 = trace w @
     [(hdr0\<lparr>opcode := SD_OP_NEW_VDI, flags := SD_FLAG_CMD_WRITE,
             data_length := SD_MAX_VDI_LEN E, vdi_base_vdi_id := base,
             vdi_snapid := (if snap then 1 else 0), vdi_vdi_size := vs,
             vdi_store_policy := pol\<rparr>, DString nm)] \<and>
   heap w1 = heap w"
  by (auto simp add: do_vdi_create_def Let_def sd_run_sdreq_def split: prod.splits if_splits)

text \<open>
  C9. When \<^verbatim>\<open>sd_vdi_create(c, name, size)\<close> passes the local checks (size not 0, size at
  most the maximum, name not empty), exactly one request is added to the trace: a
  new-volume request for that name and size whose storage policy is 1, the large-volume
  policy, when the size exceeds the legacy threshold and 0 otherwise, whose base identity
  is 0 and whose snapshot field is 0.
\<close>

theorem sd_vdi_create_request:
  assumes "sz \<noteq> 0" and "sz \<le> SD_MAX_VDI_SIZE E" and "n \<noteq> []"
  shows "trace (snd (sd_vdi_create E (Some n) sz w)) = trace w @
     [(hdr0\<lparr>opcode := SD_OP_NEW_VDI, flags := SD_FLAG_CMD_WRITE,
             data_length := SD_MAX_VDI_LEN E, vdi_base_vdi_id := 0,
             vdi_snapid := 0, vdi_vdi_size := sz,
             vdi_store_policy := (if sz > SD_OLD_MAX_VDI_SIZE E then 1 else 0)\<rparr>,
       DString n)]"
proof -
  obtain r v w1 where d: "do_vdi_create E n sz 0 False False
      (if sz > SD_OLD_MAX_VDI_SIZE E then 1 else 0) w = (r, v, w1)"
    by (metis prod_cases3)
  from assms(2) have nl: "\<not> SD_MAX_VDI_SIZE E < sz"
    by (rule leD)
  from assms(1,3) nl d have "sd_vdi_create E (Some n) sz w = (r, w1)"
    by (simp add: sd_vdi_create_def Let_def)
  with do_vdi_create_frame [OF d] show ?thesis by simp
qed

theorem sd_vdi_create_request_witness:
  "trace (snd (sd_vdi_create sample_env (Some ''vol1'') (2 ^ 42 + 1) (sample_world []))) =
     [(hdr0\<lparr>opcode := SD_OP_NEW_VDI, flags := SD_FLAG_CMD_WRITE,
             data_length := 256, vdi_base_vdi_id := 0,
             vdi_snapid := 0, vdi_vdi_size := 2 ^ 42 + 1,
             vdi_store_policy := 1\<rparr>,
       DString ''vol1'')]"
  using sd_vdi_create_request [of "2 ^ 42 + 1" sample_env "''vol1''" "sample_world []"]
  by (simp add: sample_env_def sample_world_def)

subsection \<open>Requests sent by the helpers\<close>

lemma find_vdi_frame:
  "find_vdi E n tg vp w = (r, v, w1) \<Longrightarrow>
   trace w1 = trace w @
     [(hdr0\<lparr>opcode := SD_OP_GET_VDI_INFO,
             data_length := SD_MAX_VDI_LEN E + SD_MAX_VDI_TAG_LEN E,
             flags := SD_FLAG_CMD_WRITE\<rparr>,
       DLookup (pstrcpy (unat (SD_MAX_VDI_LEN E)) n)
               (case tg of None \<Rightarrow> [] | Some t \<Rightarrow> pstrcpy (unat (SD_MAX_VDI_TAG_LEN E)) t))] \<and>
   heap w1 = heap w"
  by (auto simp add: find_vdi_def Let_def sd_run_sdreq_def split: prod.splits if_splits)

lemma find_vdi_success:
  "find_vdi E n tg True w = (SD_RES_SUCCESS, v, w1) \<Longrightarrow> \<exists>i. v = Some i"
  by (auto simp add: find_vdi_def Let_def sd_run_sdreq_def split: prod.splits if_splits)

lemma read_object_frame:
  "read_object E oid len off direct w = (r, b, w1) \<Longrightarrow>
   trace w1 = trace w @
     [(hdr0\<lparr>opcode := SD_OP_READ_OBJ, data_length := len, obj_oid := oid,
             obj_offset := off,
             flags := (if direct then SD_FLAG_CMD_DIRECT else 0)\<rparr>, DInode)] \<and>
   heap w1 = heap w"
  by (auto simp add: read_object_def Let_def sd_run_sdreq_def hdr0_def split: prod.splits if_splits)

lemma write_object_frame:
  "write_object E oid 0 d len off 0 False False w = (r, w1) \<Longrightarrow>
   trace w1 = trace w @
     [(hdr0\<lparr>opcode := SD_OP_WRITE_OBJ, data_length := len,
             flags := SD_FLAG_CMD_WRITE, obj_oid := oid, obj_cow_oid := 0,
             obj_offset := off\<rparr>, d)] \<and>
   heap w1 = heap w"
  by (auto simp add: write_object_def Let_def sd_run_sdreq_def hdr0_def SD_FLAG_CMD_WRITE_def
      split: prod.splits if_splits)

lemma vdi_read_inode_total:
  "\<exists>r b w1. vdi_read_inode E n tg oh w = Some (r, b, w1)"
proof -
  obtain r v w1 where f: "find_vdi E n tg True w = (r, v, w1)"
    by (metis prod_cases3)
  show ?thesis
  proof (cases "r = SD_RES_SUCCESS")
    case False
    with f show ?thesis by (simp add: vdi_read_inode_def)
  next
    case True
    with f find_vdi_success obtain i where "v = Some i" by blast
    with f True show ?thesis
      by (simp add: vdi_read_inode_def Let_def split: prod.splits)
  qed
qed

lemma vdi_read_inode_success:
  "vdi_read_inode E n tg oh w = Some (SD_RES_SUCCESS, b, w1) \<Longrightarrow> \<exists>ino. b = Some ino"
  by (auto simp add: vdi_read_inode_def Let_def split: prod.splits if_splits option.splits)

lemma vdi_read_inode_trace:
  assumes "vdi_read_inode E n tg oh w = Some (SD_RES_SUCCESS, b, w1)"
  shows "\<exists>i. trace w1 = trace w @
     [(hdr0\<lparr>opcode := SD_OP_GET_VDI_INFO,
             data_length := SD_MAX_VDI_LEN E + SD_MAX_VDI_TAG_LEN E,
             flags := SD_FLAG_CMD_WRITE\<rparr>,
       DLookup (pstrcpy (unat (SD_MAX_VDI_LEN E)) n)
               (case tg of None \<Rightarrow> [] | Some t \<Rightarrow> pstrcpy (unat (SD_MAX_VDI_TAG_LEN E)) t)),
      (hdr0\<lparr>opcode := SD_OP_READ_OBJ,
             data_length := (if oh then SD_INODE_HEADER_SIZE E else SD_INODE_SIZE E),
             obj_oid := vid_to_vdi_oid E i, obj_offset := 0,
             flags := SD_FLAG_CMD_DIRECT\<rparr>, DInode)]"
proof -
  obtain r v wa where f: "find_vdi E n tg True w = (r, v, wa)"
    by (metis prod_cases3)
  from assms f have rs: "r = SD_RES_SUCCESS"
    by (auto simp add: vdi_read_inode_def Let_def split: if_splits)
  with f find_vdi_success obtain i where v: "v = Some i" by blast
  obtain r2 b2 wb where ro: "read_object E (vid_to_vdi_oid E i)
      (if oh then SD_INODE_HEADER_SIZE E else SD_INODE_SIZE E) 0 True wa = (r2, b2, wb)"
    by (metis prod_cases3)
  from assms f rs v ro have "w1 = wb"
    by (simp add: vdi_read_inode_def Let_def)
  with find_vdi_frame [OF f] read_object_frame [OF ro] show ?thesis
    by auto
qed

lemma vdi_read_inode_heap:
  "vdi_read_inode E n tg oh w = Some (r, b, w1) \<Longrightarrow> heap w1 = heap w"
proof -
  assume a: "vdi_read_inode E n tg oh w = Some (r, b, w1)"
  obtain r0 v wa where f: "find_vdi E n tg True w = (r0, v, wa)"
    by (metis prod_cases3)
  show ?thesis
  proof (cases "r0 = SD_RES_SUCCESS")
    case False
    with a f find_vdi_frame [OF f] show ?thesis
      by (simp add: vdi_read_inode_def)
  next
    case True
    with f find_vdi_success obtain i where v: "v = Some i" by blast
    obtain r2 b2 wb where ro: "read_object E (vid_to_vdi_oid E i)
        (if oh then SD_INODE_HEADER_SIZE E else SD_INODE_SIZE E) 0 True wa = (r2, b2, wb)"
      by (metis prod_cases3)
    from a f True v ro have "w1 = wb"
      by (simp add: vdi_read_inode_def Let_def)
    with find_vdi_frame [OF f] read_object_frame [OF ro] show ?thesis by simp
  qed
qed

lemma snapshot_freeze_hyper:
  "store_policy ino \<noteq> 0 \<Longrightarrow> snapshot_freeze E t ino w = (SD_RES_INVALID_PARMS, w)"
  by (simp add: snapshot_freeze_def)

lemma snapshot_freeze_write_failed:
  "store_policy ino = 0 \<Longrightarrow>
   write_object E (vid_to_vdi_oid E (vdi_id ino)) 0 (DString t)
     (SD_MAX_VDI_TAG_LEN E) (offsetof_tag E) 0 False False w = (r, w1) \<Longrightarrow>
   r \<noteq> SD_RES_SUCCESS \<Longrightarrow> snapshot_freeze E t ino w = (r, w1)"
  by (simp add: snapshot_freeze_def)


lemma snapshot_no_tag_unfold:
  assumes "n \<noteq> []" and "t \<noteq> []"
    and "find_vdi E n (Some t) False w = (SD_RES_NO_TAG, v, w1)"
    and "vdi_read_inode E n None True w1 = Some (r2, buf, w2)"
  shows "sd_vdi_snapshot E (Some n) (Some t) w =
     (if r2 \<noteq> SD_RES_SUCCESS then Some (r2, w2)
      else case buf of None \<Rightarrow> None | Some ino \<Rightarrow> Some (snapshot_freeze E t ino w2))"
  using assms by (simp add: sd_vdi_snapshot_def sd_res_defs)

subsection \<open>The helpers in terms of the transport\<close>

lemma find_vdi_eq:
  assumes "transport E (remote w)
           (hdr0\<lparr>opcode := SD_OP_GET_VDI_INFO,
                  data_length := SD_MAX_VDI_LEN E + SD_MAX_VDI_TAG_LEN E,
                  flags := SD_FLAG_CMD_WRITE\<rparr>)
           (DLookup (pstrcpy (unat (SD_MAX_VDI_LEN E)) n)
              (case tg of None \<Rightarrow> [] | Some t \<Rightarrow> pstrcpy (unat (SD_MAX_VDI_TAG_LEN E)) t)) =
         (r, c1)"
  shows "find_vdi E n tg vp w =
     (checked_result r,
      if checked_result r = SD_RES_SUCCESS \<and> vp then Some (rsp_vdi_id r) else None,
      w\<lparr>remote := c1,
        trace := trace w @
          [(hdr0\<lparr>opcode := SD_OP_GET_VDI_INFO,
                  data_length := SD_MAX_VDI_LEN E + SD_MAX_VDI_TAG_LEN E,
                  flags := SD_FLAG_CMD_WRITE\<rparr>,
            DLookup (pstrcpy (unat (SD_MAX_VDI_LEN E)) n)
              (case tg of None \<Rightarrow> [] | Some t \<Rightarrow> pstrcpy (unat (SD_MAX_VDI_TAG_LEN E)) t))]\<rparr>)"
  using assms by (simp add: find_vdi_def sd_run_sdreq_def checked_result_def Let_def)

lemma read_object_eq:
  assumes "transport E (remote w)
           (hdr0\<lparr>opcode := SD_OP_READ_OBJ, data_length := len, obj_oid := oid,
                  obj_offset := off, flags := SD_FLAG_CMD_DIRECT\<rparr>) DInode = (r, c1)"
  shows "read_object E oid len off True w =
     (checked_result r, rsp_inode r,
      w\<lparr>remote := c1,
        trace := trace w @
          [(hdr0\<lparr>opcode := SD_OP_READ_OBJ, data_length := len, obj_oid := oid,
                  obj_offset := off, flags := SD_FLAG_CMD_DIRECT\<rparr>, DInode)]\<rparr>)"
  using assms
  by (simp add: read_object_def sd_run_sdreq_def checked_result_def Let_def hdr0_def)

lemma write_object_eq:
  assumes "transport E (remote w)
           (hdr0\<lparr>opcode := SD_OP_WRITE_OBJ, data_length := len,
                  flags := SD_FLAG_CMD_WRITE, obj_oid := oid, obj_cow_oid := 0,
                  obj_offset := off\<rparr>) d = (r, c1)"
  shows "write_object E oid 0 d len off 0 False False w =
     (checked_result r,
      w\<lparr>remote := c1,
        trace := trace w @
          [(hdr0\<lparr>opcode := SD_OP_WRITE_OBJ, data_length := len,
                  flags := SD_FLAG_CMD_WRITE, obj_oid := oid, obj_cow_oid := 0,
                  obj_offset := off\<rparr>, d)]\<rparr>)"
  using assms
  by (simp add: write_object_def sd_run_sdreq_def checked_result_def Let_def hdr0_def
      SD_FLAG_CMD_WRITE_def)

lemma do_vdi_create_eq:
  assumes "transport E (remote w)
           (hdr0\<lparr>opcode := SD_OP_NEW_VDI, flags := SD_FLAG_CMD_WRITE,
                  data_length := SD_MAX_VDI_LEN E, vdi_base_vdi_id := base,
                  vdi_snapid := (if snap then 1 else 0), vdi_vdi_size := vs,
                  vdi_store_policy := pol\<rparr>) (DString nm) = (r, c1)"
  shows "do_vdi_create E nm vs base False snap pol w =
     (ret r, None,
      w\<lparr>remote := c1,
        trace := trace w @
          [(hdr0\<lparr>opcode := SD_OP_NEW_VDI, flags := SD_FLAG_CMD_WRITE,
                  data_length := SD_MAX_VDI_LEN E, vdi_base_vdi_id := base,
                  vdi_snapid := (if snap then 1 else 0), vdi_vdi_size := vs,
                  vdi_store_policy := pol\<rparr>, DString nm)]\<rparr>)"
  using assms by (simp add: do_vdi_create_def sd_run_sdreq_def Let_def)

lemma vdi_read_inode_eq:
  assumes "transport E (remote w)
           (hdr0\<lparr>opcode := SD_OP_GET_VDI_INFO,
                  data_length := SD_MAX_VDI_LEN E + SD_MAX_VDI_TAG_LEN E,
                  flags := SD_FLAG_CMD_WRITE\<rparr>)
           (DLookup (pstrcpy (unat (SD_MAX_VDI_LEN E)) n)
              (case tg of None \<Rightarrow> [] | Some t \<Rightarrow> pstrcpy (unat (SD_MAX_VDI_TAG_LEN E)) t)) =
         (r1, c1)"
    and "transport E c1
           (hdr0\<lparr>opcode := SD_OP_READ_OBJ,
                  data_length := (if oh then SD_INODE_HEADER_SIZE E else SD_INODE_SIZE E),
                  obj_oid := vid_to_vdi_oid E (rsp_vdi_id r1),
                  obj_offset := 0, flags := SD_FLAG_CMD_DIRECT\<rparr>) DInode = (r2, c2)"
  shows "vdi_read_inode E n tg oh w =
     Some (if checked_result r1 \<noteq> SD_RES_SUCCESS
           then (checked_result r1, None,
                 w\<lparr>remote := c1,
                   trace := trace w @
                     [(hdr0\<lparr>opcode := SD_OP_GET_VDI_INFO,
                             data_length := SD_MAX_VDI_LEN E + SD_MAX_VDI_TAG_LEN E,
                             flags := SD_FLAG_CMD_WRITE\<rparr>,
                       DLookup (pstrcpy (unat (SD_MAX_VDI_LEN E)) n)
                         (case tg of None \<Rightarrow> []
                          | Some t \<Rightarrow> pstrcpy (unat (SD_MAX_VDI_TAG_LEN E)) t))]\<rparr>)
           else (checked_result r2, Some (rsp_inode r2),
                 w\<lparr>remote := c2,
                   trace := trace w @
                     [(hdr0\<lparr>opcode := SD_OP_GET_VDI_INFO,
                             data_length := SD_MAX_VDI_LEN E + SD_MAX_VDI_TAG_LEN E,
                             flags := SD_FLAG_CMD_WRITE\<rparr>,
                       DLookup (pstrcpy (unat (SD_MAX_VDI_LEN E)) n)
                         (case tg of None \<Rightarrow> []
                          | Some t \<Rightarrow> pstrcpy (unat (SD_MAX_VDI_TAG_LEN E)) t)),
                      (hdr0\<lparr>opcode := SD_OP_READ_OBJ,
                             data_length :=
                               (if oh then SD_INODE_HEADER_SIZE E else SD_INODE_SIZE E),
                             obj_oid := vid_to_vdi_oid E (rsp_vdi_id r1),
                             obj_offset := 0, flags := SD_FLAG_CMD_DIRECT\<rparr>, DInode)]\<rparr>))"
proof (cases "checked_result r1 = SD_RES_SUCCESS")
  case False
  with find_vdi_eq [OF assms(1), of True] show ?thesis
    by (simp add: vdi_read_inode_def)
next
  case True
  let ?w1 = "w\<lparr>remote := c1,
        trace := trace w @
          [(hdr0\<lparr>opcode := SD_OP_GET_VDI_INFO,
                  data_length := SD_MAX_VDI_LEN E + SD_MAX_VDI_TAG_LEN E,
                  flags := SD_FLAG_CMD_WRITE\<rparr>,
            DLookup (pstrcpy (unat (SD_MAX_VDI_LEN E)) n)
              (case tg of None \<Rightarrow> [] | Some t \<Rightarrow> pstrcpy (unat (SD_MAX_VDI_TAG_LEN E)) t))]\<rparr>"
  from assms(2) have "transport E (remote ?w1)
           (hdr0\<lparr>opcode := SD_OP_READ_OBJ,
                  data_length := (if oh then SD_INODE_HEADER_SIZE E else SD_INODE_SIZE E),
                  obj_oid := vid_to_vdi_oid E (rsp_vdi_id r1),
                  obj_offset := 0, flags := SD_FLAG_CMD_DIRECT\<rparr>) DInode = (r2, c2)"
    by simp
  from read_object_eq [OF this] find_vdi_eq [OF assms(1), of True] True show ?thesis
    by (simp add: vdi_read_inode_def Let_def)
qed

subsection \<open>Snapshot: the lookup decides\<close>

text \<open>
  C2. \<^verbatim>\<open>sd_vdi_snapshot(c, name, tag)\<close> with a non-empty name and tag first looks
  \<open>(name, tag)\<close> up. When the lookup succeeds, the call returns the invalid-parameters
  code; when the lookup returns anything other than success and no-such-tag, the call
  returns that very result. In both cases the world returned is the one the lookup left:
  its trace has grown by the lookup request alone, so no object was written and no volume
  created.
\<close>

theorem sd_vdi_snapshot_lookup_decides:
  assumes "n \<noteq> []" and "t \<noteq> []"
    and "find_vdi E n (Some t) False w = (r, v, w1)"
  shows "(r = SD_RES_SUCCESS \<longrightarrow>
            sd_vdi_snapshot E (Some n) (Some t) w = Some (SD_RES_INVALID_PARMS, w1)) \<and>
         (r \<noteq> SD_RES_SUCCESS \<and> r \<noteq> SD_RES_NO_TAG \<longrightarrow>
            sd_vdi_snapshot E (Some n) (Some t) w = Some (r, w1)) \<and>
         trace w1 = trace w @
           [(hdr0\<lparr>opcode := SD_OP_GET_VDI_INFO,
                   data_length := SD_MAX_VDI_LEN E + SD_MAX_VDI_TAG_LEN E,
                   flags := SD_FLAG_CMD_WRITE\<rparr>,
             DLookup (pstrcpy (unat (SD_MAX_VDI_LEN E)) n)
                     (pstrcpy (unat (SD_MAX_VDI_TAG_LEN E)) t))]"
proof -
  from assms have "r = SD_RES_SUCCESS \<longrightarrow>
      sd_vdi_snapshot E (Some n) (Some t) w = Some (SD_RES_INVALID_PARMS, w1)"
    by (simp add: sd_vdi_snapshot_def)
  moreover from assms have "r \<noteq> SD_RES_SUCCESS \<and> r \<noteq> SD_RES_NO_TAG \<longrightarrow>
      sd_vdi_snapshot E (Some n) (Some t) w = Some (r, w1)"
    by (simp add: sd_vdi_snapshot_def)
  moreover from find_vdi_frame [OF assms(3)] have "trace w1 = trace w @
           [(hdr0\<lparr>opcode := SD_OP_GET_VDI_INFO,
                   data_length := SD_MAX_VDI_LEN E + SD_MAX_VDI_TAG_LEN E,
                   flags := SD_FLAG_CMD_WRITE\<rparr>,
             DLookup (pstrcpy (unat (SD_MAX_VDI_LEN E)) n)
                     (pstrcpy (unat (SD_MAX_VDI_TAG_LEN E)) t))]"
    by simp
  ultimately show ?thesis by blast
qed

theorem sd_vdi_snapshot_lookup_decides_witness:
  "\<exists>w1. sd_vdi_snapshot sample_env (Some ''vol1'') (Some ''s1'')
            (sample_world [reply 0 0 5 (sample_inode ''vol1'' 0 0)]) =
          Some (SD_RES_INVALID_PARMS, w1) \<and>
        map (\<lambda>q. opcode (fst q)) (trace w1) = [SD_OP_GET_VDI_INFO]"
proof -
  let ?w = "sample_world [reply 0 0 5 (sample_inode ''vol1'' 0 0)]"
  let ?X = "find_vdi sample_env ''vol1'' (Some ''s1'') False ?w"
  have f: "?X = (fst ?X, fst (snd ?X), snd (snd ?X))" by simp
  have r: "fst ?X = SD_RES_SUCCESS"
    by (simp add: find_vdi_def sd_run_sdreq_def Let_def sample_defs sd_res_defs)
  have t: "trace ?w = []" by (simp add: sample_world_def)
  from sd_vdi_snapshot_lookup_decides [OF _ _ f] r t show ?thesis by simp
qed

subsection \<open>Snapshot: the order of the steps\<close>

text \<open>
  C1. \<^verbatim>\<open>sd_vdi_snapshot(c, name, tag)\<close> with a non-empty name and tag whose lookup returns
  no-such-tag goes on as follows, \<open>r2\<close> to \<open>r5\<close> being the transport's answers to the four
  requests that may follow. It looks up the head of \<open>name\<close> (empty tag field) and reads, by
  a direct read of header size, the header object of the identity that this lookup
  reported; a failure of either is returned. The inode is the one this read delivered. If
  its storage policy is not 0, the large-volume policy, the call returns the
  invalid-parameters code and the trace ends with the read: nothing is written. Otherwise
  it writes the tag into the header object of the inode's identity at the offset of the tag
  field; a failure of the write is returned. Only after a successful write does it send
  the new-volume request, whose base identity is the frozen inode's identity, whose size
  is the frozen inode's, whose snapshot field is 1 and whose storage policy is 0.
\<close>

theorem sd_vdi_snapshot_no_tag:
  assumes "n \<noteq> []" and "t \<noteq> []"
    and "transport E (remote w)
           (hdr0\<lparr>opcode := SD_OP_GET_VDI_INFO,
            data_length := SD_MAX_VDI_LEN E + SD_MAX_VDI_TAG_LEN E,
            flags := SD_FLAG_CMD_WRITE\<rparr>)
           (DLookup (pstrcpy (unat (SD_MAX_VDI_LEN E)) n) (pstrcpy (unat (SD_MAX_VDI_TAG_LEN E)) t)) = (r1, c1)"
    and "checked_result r1 = SD_RES_NO_TAG"
    and "transport E c1
           (hdr0\<lparr>opcode := SD_OP_GET_VDI_INFO,
            data_length := SD_MAX_VDI_LEN E + SD_MAX_VDI_TAG_LEN E,
            flags := SD_FLAG_CMD_WRITE\<rparr>)
           (DLookup (pstrcpy (unat (SD_MAX_VDI_LEN E)) n) []) = (r2, c2)"
    and "transport E c2
           (hdr0\<lparr>opcode := SD_OP_READ_OBJ, data_length := SD_INODE_HEADER_SIZE E,
            obj_oid := vid_to_vdi_oid E (rsp_vdi_id r2), obj_offset := 0, flags := SD_FLAG_CMD_DIRECT\<rparr>) DInode = (r3, c3)"
    and "transport E c3
           (hdr0\<lparr>opcode := SD_OP_WRITE_OBJ, data_length := SD_MAX_VDI_TAG_LEN E,
            flags := SD_FLAG_CMD_WRITE, obj_oid := vid_to_vdi_oid E (vdi_id (rsp_inode r3)),
            obj_cow_oid := 0, obj_offset := offsetof_tag E\<rparr>) (DString t) = (r4, c4)"
    and "transport E c4
           (hdr0\<lparr>opcode := SD_OP_NEW_VDI, flags := SD_FLAG_CMD_WRITE,
            data_length := SD_MAX_VDI_LEN E, vdi_base_vdi_id := vdi_id (rsp_inode r3),
            vdi_snapid := 1, vdi_vdi_size := vdi_size (rsp_inode r3), vdi_store_policy := 0\<rparr>)
           (DString (sd_inode.name (rsp_inode r3))) = (r5, c5)"
  shows "sd_vdi_snapshot E (Some n) (Some t) w =
     Some (if checked_result r2 \<noteq> SD_RES_SUCCESS then
             (checked_result r2,
              w\<lparr>remote := c2,
             trace := trace w @
               [(hdr0\<lparr>opcode := SD_OP_GET_VDI_INFO,
            data_length := SD_MAX_VDI_LEN E + SD_MAX_VDI_TAG_LEN E,
            flags := SD_FLAG_CMD_WRITE\<rparr>,
          DLookup (pstrcpy (unat (SD_MAX_VDI_LEN E)) n) (pstrcpy (unat (SD_MAX_VDI_TAG_LEN E)) t)),
                (hdr0\<lparr>opcode := SD_OP_GET_VDI_INFO,
            data_length := SD_MAX_VDI_LEN E + SD_MAX_VDI_TAG_LEN E,
            flags := SD_FLAG_CMD_WRITE\<rparr>,
          DLookup (pstrcpy (unat (SD_MAX_VDI_LEN E)) n) [])]\<rparr>)
           else if checked_result r3 \<noteq> SD_RES_SUCCESS then
             (checked_result r3,
              w\<lparr>remote := c3,
             trace := trace w @
               [(hdr0\<lparr>opcode := SD_OP_GET_VDI_INFO,
            data_length := SD_MAX_VDI_LEN E + SD_MAX_VDI_TAG_LEN E,
            flags := SD_FLAG_CMD_WRITE\<rparr>,
          DLookup (pstrcpy (unat (SD_MAX_VDI_LEN E)) n) (pstrcpy (unat (SD_MAX_VDI_TAG_LEN E)) t)),
                (hdr0\<lparr>opcode := SD_OP_GET_VDI_INFO,
            data_length := SD_MAX_VDI_LEN E + SD_MAX_VDI_TAG_LEN E,
            flags := SD_FLAG_CMD_WRITE\<rparr>,
          DLookup (pstrcpy (unat (SD_MAX_VDI_LEN E)) n) []),
                (hdr0\<lparr>opcode := SD_OP_READ_OBJ, data_length := SD_INODE_HEADER_SIZE E,
            obj_oid := vid_to_vdi_oid E (rsp_vdi_id r2), obj_offset := 0, flags := SD_FLAG_CMD_DIRECT\<rparr>, DInode)]\<rparr>)
           else if store_policy (rsp_inode r3) \<noteq> 0 then
             (SD_RES_INVALID_PARMS,
              w\<lparr>remote := c3,
             trace := trace w @
               [(hdr0\<lparr>opcode := SD_OP_GET_VDI_INFO,
            data_length := SD_MAX_VDI_LEN E + SD_MAX_VDI_TAG_LEN E,
            flags := SD_FLAG_CMD_WRITE\<rparr>,
          DLookup (pstrcpy (unat (SD_MAX_VDI_LEN E)) n) (pstrcpy (unat (SD_MAX_VDI_TAG_LEN E)) t)),
                (hdr0\<lparr>opcode := SD_OP_GET_VDI_INFO,
            data_length := SD_MAX_VDI_LEN E + SD_MAX_VDI_TAG_LEN E,
            flags := SD_FLAG_CMD_WRITE\<rparr>,
          DLookup (pstrcpy (unat (SD_MAX_VDI_LEN E)) n) []),
                (hdr0\<lparr>opcode := SD_OP_READ_OBJ, data_length := SD_INODE_HEADER_SIZE E,
            obj_oid := vid_to_vdi_oid E (rsp_vdi_id r2), obj_offset := 0, flags := SD_FLAG_CMD_DIRECT\<rparr>, DInode)]\<rparr>)
           else if checked_result r4 \<noteq> SD_RES_SUCCESS then
             (checked_result r4,
              w\<lparr>remote := c4,
             trace := trace w @
               [(hdr0\<lparr>opcode := SD_OP_GET_VDI_INFO,
            data_length := SD_MAX_VDI_LEN E + SD_MAX_VDI_TAG_LEN E,
            flags := SD_FLAG_CMD_WRITE\<rparr>,
          DLookup (pstrcpy (unat (SD_MAX_VDI_LEN E)) n) (pstrcpy (unat (SD_MAX_VDI_TAG_LEN E)) t)),
                (hdr0\<lparr>opcode := SD_OP_GET_VDI_INFO,
            data_length := SD_MAX_VDI_LEN E + SD_MAX_VDI_TAG_LEN E,
            flags := SD_FLAG_CMD_WRITE\<rparr>,
          DLookup (pstrcpy (unat (SD_MAX_VDI_LEN E)) n) []),
                (hdr0\<lparr>opcode := SD_OP_READ_OBJ, data_length := SD_INODE_HEADER_SIZE E,
            obj_oid := vid_to_vdi_oid E (rsp_vdi_id r2), obj_offset := 0, flags := SD_FLAG_CMD_DIRECT\<rparr>, DInode),
                (hdr0\<lparr>opcode := SD_OP_WRITE_OBJ, data_length := SD_MAX_VDI_TAG_LEN E,
            flags := SD_FLAG_CMD_WRITE, obj_oid := vid_to_vdi_oid E (vdi_id (rsp_inode r3)),
            obj_cow_oid := 0, obj_offset := offsetof_tag E\<rparr>, DString t)]\<rparr>)
           else
             (ret r5,
              w\<lparr>remote := c5,
             trace := trace w @
               [(hdr0\<lparr>opcode := SD_OP_GET_VDI_INFO,
            data_length := SD_MAX_VDI_LEN E + SD_MAX_VDI_TAG_LEN E,
            flags := SD_FLAG_CMD_WRITE\<rparr>,
          DLookup (pstrcpy (unat (SD_MAX_VDI_LEN E)) n) (pstrcpy (unat (SD_MAX_VDI_TAG_LEN E)) t)),
                (hdr0\<lparr>opcode := SD_OP_GET_VDI_INFO,
            data_length := SD_MAX_VDI_LEN E + SD_MAX_VDI_TAG_LEN E,
            flags := SD_FLAG_CMD_WRITE\<rparr>,
          DLookup (pstrcpy (unat (SD_MAX_VDI_LEN E)) n) []),
                (hdr0\<lparr>opcode := SD_OP_READ_OBJ, data_length := SD_INODE_HEADER_SIZE E,
            obj_oid := vid_to_vdi_oid E (rsp_vdi_id r2), obj_offset := 0, flags := SD_FLAG_CMD_DIRECT\<rparr>, DInode),
                (hdr0\<lparr>opcode := SD_OP_WRITE_OBJ, data_length := SD_MAX_VDI_TAG_LEN E,
            flags := SD_FLAG_CMD_WRITE, obj_oid := vid_to_vdi_oid E (vdi_id (rsp_inode r3)),
            obj_cow_oid := 0, obj_offset := offsetof_tag E\<rparr>, DString t),
                (hdr0\<lparr>opcode := SD_OP_NEW_VDI, flags := SD_FLAG_CMD_WRITE,
            data_length := SD_MAX_VDI_LEN E, vdi_base_vdi_id := vdi_id (rsp_inode r3),
            vdi_snapid := 1, vdi_vdi_size := vdi_size (rsp_inode r3), vdi_store_policy := 0\<rparr>,
          DString (sd_inode.name (rsp_inode r3)))]\<rparr>))"
proof -
  let ?w1 = "w\<lparr>remote := c1,
             trace := trace w @
               [(hdr0\<lparr>opcode := SD_OP_GET_VDI_INFO,
            data_length := SD_MAX_VDI_LEN E + SD_MAX_VDI_TAG_LEN E,
            flags := SD_FLAG_CMD_WRITE\<rparr>,
          DLookup (pstrcpy (unat (SD_MAX_VDI_LEN E)) n) (pstrcpy (unat (SD_MAX_VDI_TAG_LEN E)) t))]\<rparr>"
  from find_vdi_eq [of E w n "Some t" r1 c1 False] assms(3,4)
  have f: "find_vdi E n (Some t) False w = (SD_RES_NO_TAG, None, ?w1)"
    by (simp add: sd_res_defs)
  from assms(5) have t2: "transport E (remote ?w1)
           (hdr0\<lparr>opcode := SD_OP_GET_VDI_INFO,
            data_length := SD_MAX_VDI_LEN E + SD_MAX_VDI_TAG_LEN E,
            flags := SD_FLAG_CMD_WRITE\<rparr>)
           (DLookup (pstrcpy (unat (SD_MAX_VDI_LEN E)) n) (case None of None \<Rightarrow> [] | Some t \<Rightarrow> pstrcpy (unat (SD_MAX_VDI_TAG_LEN E)) t)) = (r2, c2)"
    by simp
  from assms(6) have t3: "transport E c2
           (hdr0\<lparr>opcode := SD_OP_READ_OBJ,
                  data_length := (if True then SD_INODE_HEADER_SIZE E else SD_INODE_SIZE E),
                  obj_oid := vid_to_vdi_oid E (rsp_vdi_id r2),
                  obj_offset := 0, flags := SD_FLAG_CMD_DIRECT\<rparr>) DInode = (r3, c3)"
    by simp
  note g = vdi_read_inode_eq [OF t2 t3]
  note u = snapshot_no_tag_unfold [OF assms(1,2) f]
  show ?thesis
  proof (cases "checked_result r2 \<noteq> SD_RES_SUCCESS \<or> checked_result r3 \<noteq> SD_RES_SUCCESS")
    case True
    with g u show ?thesis by (auto simp add: )
  next
    case False
    let ?w3 = "w\<lparr>remote := c3,
             trace := trace w @
               [(hdr0\<lparr>opcode := SD_OP_GET_VDI_INFO,
            data_length := SD_MAX_VDI_LEN E + SD_MAX_VDI_TAG_LEN E,
            flags := SD_FLAG_CMD_WRITE\<rparr>,
          DLookup (pstrcpy (unat (SD_MAX_VDI_LEN E)) n) (pstrcpy (unat (SD_MAX_VDI_TAG_LEN E)) t)),
                (hdr0\<lparr>opcode := SD_OP_GET_VDI_INFO,
            data_length := SD_MAX_VDI_LEN E + SD_MAX_VDI_TAG_LEN E,
            flags := SD_FLAG_CMD_WRITE\<rparr>,
          DLookup (pstrcpy (unat (SD_MAX_VDI_LEN E)) n) []),
                (hdr0\<lparr>opcode := SD_OP_READ_OBJ, data_length := SD_INODE_HEADER_SIZE E,
            obj_oid := vid_to_vdi_oid E (rsp_vdi_id r2), obj_offset := 0, flags := SD_FLAG_CMD_DIRECT\<rparr>, DInode)]\<rparr>"
    from False g have g': "vdi_read_inode E n None True ?w1 =
        Some (SD_RES_SUCCESS, Some (rsp_inode r3), ?w3)"
      by simp
    from u [OF g'] have s: "sd_vdi_snapshot E (Some n) (Some t) w =
        Some (snapshot_freeze E t (rsp_inode r3) ?w3)"
      by simp
    show ?thesis
    proof (cases "store_policy (rsp_inode r3) \<noteq> 0")
      case True
      with s False show ?thesis by (simp add: snapshot_freeze_def)
    next
      case p: False
      from assms(7) have t4: "transport E (remote ?w3)
           (hdr0\<lparr>opcode := SD_OP_WRITE_OBJ, data_length := SD_MAX_VDI_TAG_LEN E,
            flags := SD_FLAG_CMD_WRITE, obj_oid := vid_to_vdi_oid E (vdi_id (rsp_inode r3)),
            obj_cow_oid := 0, obj_offset := offsetof_tag E\<rparr>) (DString t) = (r4, c4)"
        by simp
      note wo = write_object_eq [OF t4]
      show ?thesis
      proof (cases "checked_result r4 \<noteq> SD_RES_SUCCESS")
        case True
        with s False p wo show ?thesis by (simp add: snapshot_freeze_def)
      next
        case w4: False
        let ?w4 = "w\<lparr>remote := c4,
             trace := trace w @
               [(hdr0\<lparr>opcode := SD_OP_GET_VDI_INFO,
            data_length := SD_MAX_VDI_LEN E + SD_MAX_VDI_TAG_LEN E,
            flags := SD_FLAG_CMD_WRITE\<rparr>,
          DLookup (pstrcpy (unat (SD_MAX_VDI_LEN E)) n) (pstrcpy (unat (SD_MAX_VDI_TAG_LEN E)) t)),
                (hdr0\<lparr>opcode := SD_OP_GET_VDI_INFO,
            data_length := SD_MAX_VDI_LEN E + SD_MAX_VDI_TAG_LEN E,
            flags := SD_FLAG_CMD_WRITE\<rparr>,
          DLookup (pstrcpy (unat (SD_MAX_VDI_LEN E)) n) []),
                (hdr0\<lparr>opcode := SD_OP_READ_OBJ, data_length := SD_INODE_HEADER_SIZE E,
            obj_oid := vid_to_vdi_oid E (rsp_vdi_id r2), obj_offset := 0, flags := SD_FLAG_CMD_DIRECT\<rparr>, DInode),
                (hdr0\<lparr>opcode := SD_OP_WRITE_OBJ, data_length := SD_MAX_VDI_TAG_LEN E,
            flags := SD_FLAG_CMD_WRITE, obj_oid := vid_to_vdi_oid E (vdi_id (rsp_inode r3)),
            obj_cow_oid := 0, obj_offset := offsetof_tag E\<rparr>, DString t)]\<rparr>"
        from assms(8) have t5: "transport E (remote ?w4)
           (hdr0\<lparr>opcode := SD_OP_NEW_VDI, flags := SD_FLAG_CMD_WRITE,
                  data_length := SD_MAX_VDI_LEN E, vdi_base_vdi_id := vdi_id (rsp_inode r3),
                  vdi_snapid := (if True then 1 else 0), vdi_vdi_size := vdi_size (rsp_inode r3),
                  vdi_store_policy := 0\<rparr>)
           (DString (sd_inode.name (rsp_inode r3))) = (r5, c5)"
          by simp
        note dc = do_vdi_create_eq [OF t5]
        from s False p w4 wo dc show ?thesis by (simp add: snapshot_freeze_def)
      qed
    qed
  qed
qed

theorem sd_vdi_snapshot_no_tag_witness:
  "sd_vdi_snapshot sample_env (Some ''vol1'') (Some ''s1'')
     (sample_world (snapshot_script ''vol1'' 0)) =
     Some (SD_RES_SUCCESS,
           \<lparr>remote = [],
            trace =
              [(hdr0\<lparr>opcode := SD_OP_GET_VDI_INFO, data_length := 512,
                      flags := SD_FLAG_CMD_WRITE\<rparr>, DLookup ''vol1'' ''s1''),
               (hdr0\<lparr>opcode := SD_OP_GET_VDI_INFO, data_length := 512,
                      flags := SD_FLAG_CMD_WRITE\<rparr>, DLookup ''vol1'' []),
               (hdr0\<lparr>opcode := SD_OP_READ_OBJ, data_length := 4664,
                      obj_oid := vid_to_vdi_oid sample_env 7, obj_offset := 0,
                      flags := SD_FLAG_CMD_DIRECT\<rparr>, DInode),
               (hdr0\<lparr>opcode := SD_OP_WRITE_OBJ, data_length := 256,
                      flags := SD_FLAG_CMD_WRITE, obj_oid := vid_to_vdi_oid sample_env 7,
                      obj_cow_oid := 0, obj_offset := 256\<rparr>, DString ''s1''),
               (hdr0\<lparr>opcode := SD_OP_NEW_VDI, flags := SD_FLAG_CMD_WRITE,
                      data_length := 256, vdi_base_vdi_id := 7, vdi_snapid := 1,
                      vdi_vdi_size := 4096, vdi_store_policy := 0\<rparr>, DString ''vol1'')],
            heap = Map.empty, next_addr = 0, errno = 0\<rparr>) \<and>
   sd_vdi_snapshot sample_env (Some ''vol1'') (Some ''s1'')
     (sample_world (snapshot_script ''vol1'' 1)) =
     Some (SD_RES_INVALID_PARMS,
           \<lparr>remote = [reply 0 0 0 (sample_inode [] 0 0), reply 0 0 8 (sample_inode [] 0 0)],
            trace =
              [(hdr0\<lparr>opcode := SD_OP_GET_VDI_INFO, data_length := 512,
                      flags := SD_FLAG_CMD_WRITE\<rparr>, DLookup ''vol1'' ''s1''),
               (hdr0\<lparr>opcode := SD_OP_GET_VDI_INFO, data_length := 512,
                      flags := SD_FLAG_CMD_WRITE\<rparr>, DLookup ''vol1'' []),
               (hdr0\<lparr>opcode := SD_OP_READ_OBJ, data_length := 4664,
                      obj_oid := vid_to_vdi_oid sample_env 7, obj_offset := 0,
                      flags := SD_FLAG_CMD_DIRECT\<rparr>, DInode)],
            heap = Map.empty, next_addr = 0, errno = 0\<rparr>)"
proof -
  have nt: "checked_result (reply 0 SD_RES_NO_TAG 0 (sample_inode [] 0 0)) = SD_RES_NO_TAG"
    by (simp add: checked_result_def reply_def sd_res_defs)
  have a: "''vol1'' \<noteq> []" and b: "''s1'' \<noteq> []" by simp_all
  note th0 = sd_vdi_snapshot_no_tag [where E = sample_env and n = "''vol1''" and t = "''s1''"
      and w = "sample_world [reply 0 SD_RES_NO_TAG 0 (sample_inode [] 0 0),
                 reply 0 0 7 (sample_inode [] 0 0), reply 0 0 0 (sample_inode ''vol1'' 0 0),
                 reply 0 0 0 (sample_inode [] 0 0), reply 0 0 8 (sample_inode [] 0 0)]",
      OF a b scripted_first nt scripted_next scripted_next scripted_next scripted_next]
  note th1 = sd_vdi_snapshot_no_tag [where E = sample_env and n = "''vol1''" and t = "''s1''"
      and w = "sample_world [reply 0 SD_RES_NO_TAG 0 (sample_inode [] 0 0),
                 reply 0 0 7 (sample_inode [] 0 0), reply 0 0 0 (sample_inode ''vol1'' 1 0),
                 reply 0 0 0 (sample_inode [] 0 0), reply 0 0 8 (sample_inode [] 0 0)]",
      OF a b scripted_first nt scripted_next scripted_next scripted_next scripted_next]
  from th0 th1
  show ?thesis
    by (simp add: snapshot_script_def checked_result_def reply_def sample_inode_def
        sd_res_defs sample_world_def sample_env_def pstrcpy_def)
qed

subsection \<open>Snapshot: the name of the new head\<close>



subsection \<open>Clone\<close>

lemma sd_vdi_clone_invalid:
  "dstname = None \<or> dstname = Some [] \<or> srctag = None \<or> srctag = Some [] \<or>
   srcname = None \<or> srcname = Some [] \<Longrightarrow>
   sd_vdi_clone E srcname srctag dstname w = Some (SD_RES_INVALID_PARMS, w)"
  by (auto simp add: sd_vdi_clone_def split: option.splits)

lemma sd_vdi_clone_unfold:
  assumes "d \<noteq> []" and "t \<noteq> []" and "n \<noteq> []"
    and "vdi_read_inode E n (Some t) False w = Some (r, buf, w1)"
  shows "sd_vdi_clone E (Some n) (Some t) (Some d) w =
     (if r \<noteq> SD_RES_SUCCESS then Some (r, w1)
      else case buf of
             None \<Rightarrow> None
           | Some ino \<Rightarrow>
               Some (fst (do_vdi_create E d (vdi_size ino) (vdi_id ino) False False
                            (store_policy ino) w1),
                     snd (snd (do_vdi_create E d (vdi_size ino) (vdi_id ino) False False
                            (store_policy ino) w1))))"
  using assms by (simp add: sd_vdi_clone_def Let_def split: option.splits prod.splits)

text \<open>
  C6. \<^verbatim>\<open>sd_vdi_clone(c, srcname, srctag, dstname)\<close> with a null or empty destination name,
  source tag or source name returns the invalid-parameters code with the world untouched.
  Otherwise, \<open>r1\<close> to \<open>r3\<close> being the transport's answers: it looks \<open>(srcname, srctag)\<close> up
  and reads, by a direct read of inode size, the header object of the identity that the
  lookup reported; a failure of either is returned and nothing is created. After a
  successful read it sends one new-volume request for the destination name whose size and
  storage policy are those of the inode that was read, whose base identity is that inode's
  identity and whose snapshot field is 0.
\<close>

theorem sd_vdi_clone_spec:
  assumes "transport E (remote w)
      (hdr0\<lparr>opcode := SD_OP_GET_VDI_INFO,
            data_length := SD_MAX_VDI_LEN E + SD_MAX_VDI_TAG_LEN E,
            flags := SD_FLAG_CMD_WRITE\<rparr>)
      (DLookup (pstrcpy (unat (SD_MAX_VDI_LEN E)) n) (pstrcpy (unat (SD_MAX_VDI_TAG_LEN E)) t)) = (r1, c1)"
    and "transport E c1
      (hdr0\<lparr>opcode := SD_OP_READ_OBJ, data_length := SD_INODE_SIZE E,
            obj_oid := vid_to_vdi_oid E (rsp_vdi_id r1), obj_offset := 0, flags := SD_FLAG_CMD_DIRECT\<rparr>) DInode = (r2, c2)"
    and "transport E c2
      (hdr0\<lparr>opcode := SD_OP_NEW_VDI, flags := SD_FLAG_CMD_WRITE,
            data_length := SD_MAX_VDI_LEN E, vdi_base_vdi_id := vdi_id (rsp_inode r2),
            vdi_snapid := 0, vdi_vdi_size := vdi_size (rsp_inode r2), vdi_store_policy := store_policy (rsp_inode r2)\<rparr>) (DString d) = (r3, c3)"
  shows "(dstname = None \<or> dstname = Some [] \<or> srctag = None \<or> srctag = Some [] \<or>
          srcname = None \<or> srcname = Some [] \<longrightarrow>
            sd_vdi_clone E srcname srctag dstname w = Some (SD_RES_INVALID_PARMS, w)) \<and>
         (d \<noteq> [] \<and> t \<noteq> [] \<and> n \<noteq> [] \<longrightarrow>
            sd_vdi_clone E (Some n) (Some t) (Some d) w =
              Some (if checked_result r1 \<noteq> SD_RES_SUCCESS then
                      (checked_result r1,
                       w\<lparr>remote := c1,
             trace := trace w @
               [(hdr0\<lparr>opcode := SD_OP_GET_VDI_INFO,
            data_length := SD_MAX_VDI_LEN E + SD_MAX_VDI_TAG_LEN E,
            flags := SD_FLAG_CMD_WRITE\<rparr>,
          DLookup (pstrcpy (unat (SD_MAX_VDI_LEN E)) n) (pstrcpy (unat (SD_MAX_VDI_TAG_LEN E)) t))]\<rparr>)
                    else if checked_result r2 \<noteq> SD_RES_SUCCESS then
                      (checked_result r2,
                       w\<lparr>remote := c2,
             trace := trace w @
               [(hdr0\<lparr>opcode := SD_OP_GET_VDI_INFO,
            data_length := SD_MAX_VDI_LEN E + SD_MAX_VDI_TAG_LEN E,
            flags := SD_FLAG_CMD_WRITE\<rparr>,
          DLookup (pstrcpy (unat (SD_MAX_VDI_LEN E)) n) (pstrcpy (unat (SD_MAX_VDI_TAG_LEN E)) t)),
                (hdr0\<lparr>opcode := SD_OP_READ_OBJ, data_length := SD_INODE_SIZE E,
            obj_oid := vid_to_vdi_oid E (rsp_vdi_id r1), obj_offset := 0, flags := SD_FLAG_CMD_DIRECT\<rparr>, DInode)]\<rparr>)
                    else
                      (ret r3,
                       w\<lparr>remote := c3,
             trace := trace w @
               [(hdr0\<lparr>opcode := SD_OP_GET_VDI_INFO,
            data_length := SD_MAX_VDI_LEN E + SD_MAX_VDI_TAG_LEN E,
            flags := SD_FLAG_CMD_WRITE\<rparr>,
          DLookup (pstrcpy (unat (SD_MAX_VDI_LEN E)) n) (pstrcpy (unat (SD_MAX_VDI_TAG_LEN E)) t)),
                (hdr0\<lparr>opcode := SD_OP_READ_OBJ, data_length := SD_INODE_SIZE E,
            obj_oid := vid_to_vdi_oid E (rsp_vdi_id r1), obj_offset := 0, flags := SD_FLAG_CMD_DIRECT\<rparr>, DInode),
                (hdr0\<lparr>opcode := SD_OP_NEW_VDI, flags := SD_FLAG_CMD_WRITE,
            data_length := SD_MAX_VDI_LEN E, vdi_base_vdi_id := vdi_id (rsp_inode r2),
            vdi_snapid := 0, vdi_vdi_size := vdi_size (rsp_inode r2), vdi_store_policy := store_policy (rsp_inode r2)\<rparr>,
          DString d)]\<rparr>)))"
proof (intro conjI impI)
  assume "dstname = None \<or> dstname = Some [] \<or> srctag = None \<or> srctag = Some [] \<or>
    srcname = None \<or> srcname = Some []"
  then show "sd_vdi_clone E srcname srctag dstname w = Some (SD_RES_INVALID_PARMS, w)"
    by (rule sd_vdi_clone_invalid)
next
  assume "d \<noteq> [] \<and> t \<noteq> [] \<and> n \<noteq> []"
  then have ne: "d \<noteq> []" "t \<noteq> []" "n \<noteq> []" by simp_all
  from assms(1) have t1: "transport E (remote w)
      (hdr0\<lparr>opcode := SD_OP_GET_VDI_INFO,
            data_length := SD_MAX_VDI_LEN E + SD_MAX_VDI_TAG_LEN E,
            flags := SD_FLAG_CMD_WRITE\<rparr>)
      (DLookup (pstrcpy (unat (SD_MAX_VDI_LEN E)) n) (case Some t of None \<Rightarrow> [] | Some t \<Rightarrow> pstrcpy (unat (SD_MAX_VDI_TAG_LEN E)) t)) = (r1, c1)"
    by simp
  from assms(2) have t2: "transport E c1
           (hdr0\<lparr>opcode := SD_OP_READ_OBJ,
                  data_length := (if False then SD_INODE_HEADER_SIZE E else SD_INODE_SIZE E),
                  obj_oid := vid_to_vdi_oid E (rsp_vdi_id r1),
                  obj_offset := 0, flags := SD_FLAG_CMD_DIRECT\<rparr>) DInode = (r2, c2)"
    by simp
  note g = vdi_read_inode_eq [OF t1 t2]
  show "sd_vdi_clone E (Some n) (Some t) (Some d) w =
        Some (if checked_result r1 \<noteq> SD_RES_SUCCESS then
                (checked_result r1,
                 w\<lparr>remote := c1,
             trace := trace w @
               [(hdr0\<lparr>opcode := SD_OP_GET_VDI_INFO,
            data_length := SD_MAX_VDI_LEN E + SD_MAX_VDI_TAG_LEN E,
            flags := SD_FLAG_CMD_WRITE\<rparr>,
          DLookup (pstrcpy (unat (SD_MAX_VDI_LEN E)) n) (pstrcpy (unat (SD_MAX_VDI_TAG_LEN E)) t))]\<rparr>)
              else if checked_result r2 \<noteq> SD_RES_SUCCESS then
                (checked_result r2,
                 w\<lparr>remote := c2,
             trace := trace w @
               [(hdr0\<lparr>opcode := SD_OP_GET_VDI_INFO,
            data_length := SD_MAX_VDI_LEN E + SD_MAX_VDI_TAG_LEN E,
            flags := SD_FLAG_CMD_WRITE\<rparr>,
          DLookup (pstrcpy (unat (SD_MAX_VDI_LEN E)) n) (pstrcpy (unat (SD_MAX_VDI_TAG_LEN E)) t)),
                (hdr0\<lparr>opcode := SD_OP_READ_OBJ, data_length := SD_INODE_SIZE E,
            obj_oid := vid_to_vdi_oid E (rsp_vdi_id r1), obj_offset := 0, flags := SD_FLAG_CMD_DIRECT\<rparr>, DInode)]\<rparr>)
              else
                (ret r3,
                 w\<lparr>remote := c3,
             trace := trace w @
               [(hdr0\<lparr>opcode := SD_OP_GET_VDI_INFO,
            data_length := SD_MAX_VDI_LEN E + SD_MAX_VDI_TAG_LEN E,
            flags := SD_FLAG_CMD_WRITE\<rparr>,
          DLookup (pstrcpy (unat (SD_MAX_VDI_LEN E)) n) (pstrcpy (unat (SD_MAX_VDI_TAG_LEN E)) t)),
                (hdr0\<lparr>opcode := SD_OP_READ_OBJ, data_length := SD_INODE_SIZE E,
            obj_oid := vid_to_vdi_oid E (rsp_vdi_id r1), obj_offset := 0, flags := SD_FLAG_CMD_DIRECT\<rparr>, DInode),
                (hdr0\<lparr>opcode := SD_OP_NEW_VDI, flags := SD_FLAG_CMD_WRITE,
            data_length := SD_MAX_VDI_LEN E, vdi_base_vdi_id := vdi_id (rsp_inode r2),
            vdi_snapid := 0, vdi_vdi_size := vdi_size (rsp_inode r2), vdi_store_policy := store_policy (rsp_inode r2)\<rparr>,
          DString d)]\<rparr>))"
  proof (cases "checked_result r1 \<noteq> SD_RES_SUCCESS \<or> checked_result r2 \<noteq> SD_RES_SUCCESS")
    case True
    with g ne show ?thesis by (auto simp add: sd_vdi_clone_def)
  next
    case False
    let ?w2 = "w\<lparr>remote := c2,
             trace := trace w @
               [(hdr0\<lparr>opcode := SD_OP_GET_VDI_INFO,
            data_length := SD_MAX_VDI_LEN E + SD_MAX_VDI_TAG_LEN E,
            flags := SD_FLAG_CMD_WRITE\<rparr>,
          DLookup (pstrcpy (unat (SD_MAX_VDI_LEN E)) n) (pstrcpy (unat (SD_MAX_VDI_TAG_LEN E)) t)),
                (hdr0\<lparr>opcode := SD_OP_READ_OBJ, data_length := SD_INODE_SIZE E,
            obj_oid := vid_to_vdi_oid E (rsp_vdi_id r1), obj_offset := 0, flags := SD_FLAG_CMD_DIRECT\<rparr>, DInode)]\<rparr>"
    from assms(3) have t3: "transport E (remote ?w2)
           (hdr0\<lparr>opcode := SD_OP_NEW_VDI, flags := SD_FLAG_CMD_WRITE,
                  data_length := SD_MAX_VDI_LEN E, vdi_base_vdi_id := vdi_id (rsp_inode r2),
                  vdi_snapid := (if False then 1 else 0), vdi_vdi_size := vdi_size (rsp_inode r2),
                  vdi_store_policy := store_policy (rsp_inode r2)\<rparr>) (DString d) = (r3, c3)"
      by simp
    from do_vdi_create_eq [OF t3] g False ne show ?thesis
      by (simp add: sd_vdi_clone_def)
  qed
qed

theorem sd_vdi_clone_spec_witness:
  "sd_vdi_clone sample_env (Some ''vol1'') (Some []) (Some ''vol2'') (sample_world clone_script) =
     Some (SD_RES_INVALID_PARMS, sample_world clone_script) \<and>
   sd_vdi_clone sample_env (Some ''vol1'') (Some ''s1'') (Some ''vol2'')
     (sample_world clone_script) =
     Some (SD_RES_SUCCESS,
           \<lparr>remote = [],
            trace =
              [(hdr0\<lparr>opcode := SD_OP_GET_VDI_INFO, data_length := 512,
                      flags := SD_FLAG_CMD_WRITE\<rparr>, DLookup ''vol1'' ''s1''),
               (hdr0\<lparr>opcode := SD_OP_READ_OBJ, data_length := 4198968,
                      obj_oid := vid_to_vdi_oid sample_env 7, obj_offset := 0,
                      flags := SD_FLAG_CMD_DIRECT\<rparr>, DInode),
               (hdr0\<lparr>opcode := SD_OP_NEW_VDI, flags := SD_FLAG_CMD_WRITE,
                      data_length := 256, vdi_base_vdi_id := 7, vdi_snapid := 0,
                      vdi_vdi_size := 4096, vdi_store_policy := 1\<rparr>, DString ''vol2'')],
            heap = Map.empty, next_addr = 0, errno = 0\<rparr>)"
proof -
  note th = sd_vdi_clone_spec [where E = sample_env and d = "''vol2''" and t = "''s1''"
      and n = "''vol1''" and dstname = "Some ''vol2''" and srctag = "Some []"
      and srcname = "Some ''vol1''"
      and w = "sample_world [reply 0 0 7 (sample_inode [] 0 0),
                 reply 0 0 0 (sample_inode ''vol1'' 1 5), reply 0 0 9 (sample_inode [] 0 0)]",
      OF scripted_first scripted_next scripted_next]
  from th show ?thesis
    by (simp add: clone_script_def checked_result_def reply_def sample_inode_def
        sd_res_defs sample_world_def sample_env_def pstrcpy_def)
qed

subsection \<open>Lock and release on an allocated handle\<close>

lemma unlock_vdi_eq:
  assumes "heap w p = Some h"
    and "transport E (remote w)
           (hdr0\<lparr>opcode := SD_OP_RELEASE_VDI, vdi_type := LOCK_TYPE_NORMAL E,
                  vdi_base_vdi_id := vid h\<rparr>) DNull = (ru, c1)"
  shows "unlock_vdi E p w =
     Some (ret ru,
           w\<lparr>remote := c1,
             trace := trace w @
               [(hdr0\<lparr>opcode := SD_OP_RELEASE_VDI, vdi_type := LOCK_TYPE_NORMAL E,
                       vdi_base_vdi_id := vid h\<rparr>, DNull)]\<rparr>)"
  using assms by (simp add: unlock_vdi_def sd_run_sdreq_def Let_def)

lemma lock_vdi_eq:
  assumes "heap w p = Some h"
    and "transport E (remote w)
           (hdr0\<lparr>opcode := SD_OP_LOCK_VDI, data_length := SD_MAX_VDI_LEN E,
                  flags := SD_FLAG_CMD_WRITE\<rparr>) (DString (sd_vdi.name h)) = (rl, c1)"
  shows "lock_vdi E p w =
     Some (ret rl,
           if ret rl \<noteq> SD_RES_SUCCESS
           then w\<lparr>remote := c1,
                  trace := trace w @
                    [(hdr0\<lparr>opcode := SD_OP_LOCK_VDI, data_length := SD_MAX_VDI_LEN E,
                            flags := SD_FLAG_CMD_WRITE\<rparr>, DString (sd_vdi.name h))]\<rparr>
           else w\<lparr>remote := c1,
                  trace := trace w @
                    [(hdr0\<lparr>opcode := SD_OP_LOCK_VDI, data_length := SD_MAX_VDI_LEN E,
                            flags := SD_FLAG_CMD_WRITE\<rparr>, DString (sd_vdi.name h))],
                  heap := (heap w)(p \<mapsto> h\<lparr>vid := rsp_vdi_id rl\<rparr>)\<rparr>)"
  using assms by (simp add: lock_vdi_def sd_run_sdreq_def Let_def)

subsection \<open>The two stages of a result\<close>

text \<open>
  \<open>write_object\<close>, \<open>read_object\<close> and \<open>find_vdi\<close> look at the transport-level result first
  and at the operation-level result only when the transport succeeded.
\<close>

lemma write_object_two_stage:
  assumes "write_object E oid cow d len off fl cr di w = (x, w1)"
    and "transport E (remote w) (fst (last (trace w1))) d = (r, c1)"
  shows "x = (if ret r \<noteq> SD_RES_SUCCESS then ret r else rsp_result r)"
  using assms
  by (auto simp add: write_object_def sd_run_sdreq_def Let_def split: prod.splits if_splits)

lemma read_object_two_stage:
  assumes "read_object E oid len off di w = (x, b, w1)"
    and "transport E (remote w) (fst (last (trace w1))) DInode = (r, c1)"
  shows "x = (if ret r \<noteq> SD_RES_SUCCESS then ret r else rsp_result r)"
  using assms
  by (auto simp add: read_object_def sd_run_sdreq_def Let_def split: prod.splits if_splits)

lemma find_vdi_two_stage:
  assumes "find_vdi E n tg vp w = (x, v, w1)"
    and "transport E (remote w) (fst (last (trace w1))) (snd (last (trace w1))) = (r, c1)"
  shows "x = (if ret r \<noteq> SD_RES_SUCCESS then ret r else rsp_result r)"
  using assms
  by (auto simp add: find_vdi_def sd_run_sdreq_def Let_def split: prod.splits if_splits)

text \<open>
  \<open>lock_vdi\<close>, \<open>unlock_vdi\<close> and \<open>do_vdi_create\<close> return what the transport returned and
  never look at the operation-level result.
\<close>

lemma lock_vdi_one_stage:
  assumes "heap w p = Some h"
    and "lock_vdi E p w = Some (x, w1)"
    and "transport E (remote w) (fst (last (trace w1))) (DString (sd_vdi.name h)) = (r, c1)"
  shows "x = ret r"
  using assms
  by (auto simp add: lock_vdi_def sd_run_sdreq_def Let_def split: prod.splits if_splits)

lemma unlock_vdi_one_stage:
  assumes "heap w p = Some h"
    and "unlock_vdi E p w = Some (x, w1)"
    and "transport E (remote w) (fst (last (trace w1))) DNull = (r, c1)"
  shows "x = ret r"
  using assms
  by (auto simp add: unlock_vdi_def sd_run_sdreq_def Let_def split: prod.splits if_splits)

lemma do_vdi_create_one_stage:
  assumes "do_vdi_create E nm vs base ptr snap pol w = (x, v, w1)"
    and "transport E (remote w) (fst (last (trace w1))) (DString nm) = (r, c1)"
  shows "x = ret r"
  using assms
  by (auto simp add: do_vdi_create_def sd_run_sdreq_def Let_def split: prod.splits if_splits)

text \<open>
  C3. Every remote call is to check the transport-level result first and, when the
  transport succeeded, the operation-level result as well before it reports success.
  \<open>lock_vdi\<close> does the first and not the second: when the transport succeeds and the
  response carries the result "volume is locked", \<open>lock_vdi\<close> reports success and stores
  the identity of the response in the handle. \<open>write_object\<close>, given the same reply,
  returns the operation-level result. In consequence \<open>sd_vdi_open\<close> hands out a handle for
  a volume whose lock was refused.
\<close>

theorem lock_vdi_operation_result_unchecked:
  "(\<exists>w'. lock_vdi sample_env 0
            (open_handle_world [reply SD_RES_SUCCESS SD_RES_VDI_LOCKED 9 (sample_inode [] 0 0)]) =
          Some (SD_RES_SUCCESS, w') \<and>
        map_option vid (heap w' 0) = Some 9) \<and>
   fst (write_object sample_env 0 0 DNull 0 0 0 False False
          (open_handle_world [reply SD_RES_SUCCESS SD_RES_VDI_LOCKED 9 (sample_inode [] 0 0)])) =
     SD_RES_VDI_LOCKED \<and>
   (\<exists>w'. sd_vdi_open sample_env ''vol1''
            (sample_world [reply SD_RES_SUCCESS SD_RES_VDI_LOCKED 9 (sample_inode [] 0 0),
                           reply SD_RES_SUCCESS 0 0 (sample_inode ''vol1'' 0 0)]) =
          Some (Some 0, w'))"
  by (simp add: lock_vdi_def write_object_def sd_vdi_open_def alloc_vdi_def sd_run_sdreq_def
      Let_def open_handle_world_def sample_world_def sample_env_def sample_inode_def
      scripted_def reply_def sd_res_defs)

subsection \<open>Close\<close>

text \<open>
  What \<open>sd_vdi_close\<close> does on an allocated handle, by the transport-level result of the
  release: when that is not success it is returned and only the connection and the trace
  change; when it is success the handle is freed.
\<close>

lemma sd_vdi_close_cases:
  assumes "heap w p = Some h"
    and "transport E (remote w)
           (hdr0\<lparr>opcode := SD_OP_RELEASE_VDI, vdi_type := LOCK_TYPE_NORMAL E,
                  vdi_base_vdi_id := vid h\<rparr>) DNull = (ru, c1)"
  shows "(ret ru \<noteq> SD_RES_SUCCESS \<longrightarrow>
            sd_vdi_close E p w =
              Some (ret ru,
                    w\<lparr>remote := c1,
                      trace := trace w @
                        [(hdr0\<lparr>opcode := SD_OP_RELEASE_VDI,
                                vdi_type := LOCK_TYPE_NORMAL E,
                                vdi_base_vdi_id := vid h\<rparr>, DNull)]\<rparr>)) \<and>
         (ret ru = SD_RES_SUCCESS \<longrightarrow>
            sd_vdi_close E p w =
              Some (SD_RES_SUCCESS,
                    w\<lparr>remote := c1,
                      trace := trace w @
                        [(hdr0\<lparr>opcode := SD_OP_RELEASE_VDI,
                                vdi_type := LOCK_TYPE_NORMAL E,
                                vdi_base_vdi_id := vid h\<rparr>, DNull)],
                      heap := (heap w)(p := None)\<rparr>))"
  using unlock_vdi_eq [OF assms]
  by (simp add: sd_vdi_close_def free_vdi_def SD_RES_SUCCESS_def)

text \<open>
  C5. \<^verbatim>\<open>sd_vdi_close\<close> is to return the error and leave the handle alone when the release
  fails, and to free the handle only when the release succeeded. It does so for a failure
  at the transport level. When the transport succeeds and the response carries a failure
  of the release itself, \<open>unlock_vdi\<close> does not look at it: \<open>sd_vdi_close\<close> returns success
  and frees the handle although the lock was not released.
\<close>

theorem sd_vdi_close_operation_result_unchecked:
  "\<exists>w'. sd_vdi_close sample_env 0
           (open_handle_world
              [reply SD_RES_SUCCESS SD_RES_SYSTEM_ERROR 0 (sample_inode [] 0 0)]) =
         Some (SD_RES_SUCCESS, w') \<and>
       heap w' 0 = None \<and>
       map (\<lambda>q. opcode (fst q)) (trace w') = [SD_OP_RELEASE_VDI]"
  by (simp add: sd_vdi_close_def unlock_vdi_def free_vdi_def sd_run_sdreq_def Let_def
      open_handle_world_def sample_env_def scripted_def reply_def sd_res_defs hdr0_def)

subsection \<open>Open\<close>

text \<open>
  What \<open>sd_vdi_open\<close> does, by the transport-level results \<open>ret rl\<close> of the lock and
  \<open>ret rr\<close> of the read: lock not delivered, the handle is freed and no release sent; read
  not delivered or a snapshot inode, the release is sent and the handle freed; otherwise
  the handle is returned.
\<close>

lemma sd_vdi_open_cases:
  assumes "transport E (remote w)
             (hdr0\<lparr>opcode := SD_OP_LOCK_VDI, data_length := SD_MAX_VDI_LEN E,
                    flags := SD_FLAG_CMD_WRITE\<rparr>) (DString nm) = (rl, c1)"
    and "transport E c1
             (hdr0\<lparr>opcode := SD_OP_READ_OBJ, data_length := SD_INODE_SIZE E,
                    obj_oid := vid_to_vdi_oid E (rsp_vdi_id rl), obj_offset := 0\<rparr>) DInode =
           (rr, c2)"
    and "transport E c2
             (hdr0\<lparr>opcode := SD_OP_RELEASE_VDI, vdi_type := LOCK_TYPE_NORMAL E,
                    vdi_base_vdi_id := rsp_vdi_id rl\<rparr>) DNull = (ru, c3)"
  shows "(ret rl \<noteq> SD_RES_SUCCESS \<longrightarrow>
            sd_vdi_open E nm w =
              Some (None,
                    w\<lparr>remote := c1,
                      trace := trace w @
                        [(hdr0\<lparr>opcode := SD_OP_LOCK_VDI, data_length := SD_MAX_VDI_LEN E,
                                flags := SD_FLAG_CMD_WRITE\<rparr>, DString nm)],
                      heap := (heap w)(next_addr w := None),
                      next_addr := Suc (next_addr w),
                      errno := ret rl\<rparr>)) \<and>
         (ret rl = SD_RES_SUCCESS \<and>
          (ret rr \<noteq> SD_RES_SUCCESS \<or> vdi_is_snapshot E (rsp_inode rr)) \<longrightarrow>
            sd_vdi_open E nm w =
              Some (None,
                    w\<lparr>remote := c3,
                      trace := trace w @
                        [(hdr0\<lparr>opcode := SD_OP_LOCK_VDI, data_length := SD_MAX_VDI_LEN E,
                                flags := SD_FLAG_CMD_WRITE\<rparr>, DString nm),
                         (hdr0\<lparr>opcode := SD_OP_READ_OBJ, data_length := SD_INODE_SIZE E,
                                obj_oid := vid_to_vdi_oid E (rsp_vdi_id rl),
                                obj_offset := 0\<rparr>, DInode),
                         (hdr0\<lparr>opcode := SD_OP_RELEASE_VDI,
                                vdi_type := LOCK_TYPE_NORMAL E,
                                vdi_base_vdi_id := rsp_vdi_id rl\<rparr>, DNull)],
                      heap := (heap w)(next_addr w := None),
                      next_addr := Suc (next_addr w),
                      errno := (if ret rr \<noteq> SD_RES_SUCCESS then ret rr
                                else SD_RES_INVALID_PARMS)\<rparr>)) \<and>
         (ret rl = SD_RES_SUCCESS \<and> ret rr = SD_RES_SUCCESS \<and>
          \<not> vdi_is_snapshot E (rsp_inode rr) \<longrightarrow>
            sd_vdi_open E nm w =
              Some (Some (next_addr w),
                    w\<lparr>remote := c2,
                      trace := trace w @
                        [(hdr0\<lparr>opcode := SD_OP_LOCK_VDI, data_length := SD_MAX_VDI_LEN E,
                                flags := SD_FLAG_CMD_WRITE\<rparr>, DString nm),
                         (hdr0\<lparr>opcode := SD_OP_READ_OBJ, data_length := SD_INODE_SIZE E,
                                obj_oid := vid_to_vdi_oid E (rsp_vdi_id rl),
                                obj_offset := 0\<rparr>, DInode)],
                      heap := (heap w)(next_addr w \<mapsto>
                                \<lparr>name = nm, vid = rsp_vdi_id rl,
                                 inode = Some (rsp_inode rr)\<rparr>),
                      next_addr := Suc (next_addr w)\<rparr>))"
proof (intro conjI impI)
  assume "ret rl \<noteq> SD_RES_SUCCESS"
  with assms(1) show "sd_vdi_open E nm w =
              Some (None,
                    w\<lparr>remote := c1,
                      trace := trace w @
                        [(hdr0\<lparr>opcode := SD_OP_LOCK_VDI, data_length := SD_MAX_VDI_LEN E,
                                flags := SD_FLAG_CMD_WRITE\<rparr>, DString nm)],
                      heap := (heap w)(next_addr w := None),
                      next_addr := Suc (next_addr w),
                      errno := ret rl\<rparr>)"
    by (simp add: sd_vdi_open_def alloc_vdi_def lock_vdi_def out_free_def free_vdi_def
        sd_run_sdreq_def Let_def)
next
  assume a: "ret rl = SD_RES_SUCCESS \<and>
          (ret rr \<noteq> SD_RES_SUCCESS \<or> vdi_is_snapshot E (rsp_inode rr))"
  with assms show "sd_vdi_open E nm w =
              Some (None,
                    w\<lparr>remote := c3,
                      trace := trace w @
                        [(hdr0\<lparr>opcode := SD_OP_LOCK_VDI, data_length := SD_MAX_VDI_LEN E,
                                flags := SD_FLAG_CMD_WRITE\<rparr>, DString nm),
                         (hdr0\<lparr>opcode := SD_OP_READ_OBJ, data_length := SD_INODE_SIZE E,
                                obj_oid := vid_to_vdi_oid E (rsp_vdi_id rl),
                                obj_offset := 0\<rparr>, DInode),
                         (hdr0\<lparr>opcode := SD_OP_RELEASE_VDI,
                                vdi_type := LOCK_TYPE_NORMAL E,
                                vdi_base_vdi_id := rsp_vdi_id rl\<rparr>, DNull)],
                      heap := (heap w)(next_addr w := None),
                      next_addr := Suc (next_addr w),
                      errno := (if ret rr \<noteq> SD_RES_SUCCESS then ret rr
                                else SD_RES_INVALID_PARMS)\<rparr>)"
    by (auto simp add: sd_vdi_open_def alloc_vdi_def lock_vdi_def unlock_vdi_def
        out_unlock_def out_free_def free_vdi_def sd_run_sdreq_def Let_def)
next
  assume a: "ret rl = SD_RES_SUCCESS \<and> ret rr = SD_RES_SUCCESS \<and>
          \<not> vdi_is_snapshot E (rsp_inode rr)"
  with assms(1,2) show "sd_vdi_open E nm w =
              Some (Some (next_addr w),
                    w\<lparr>remote := c2,
                      trace := trace w @
                        [(hdr0\<lparr>opcode := SD_OP_LOCK_VDI, data_length := SD_MAX_VDI_LEN E,
                                flags := SD_FLAG_CMD_WRITE\<rparr>, DString nm),
                         (hdr0\<lparr>opcode := SD_OP_READ_OBJ, data_length := SD_INODE_SIZE E,
                                obj_oid := vid_to_vdi_oid E (rsp_vdi_id rl),
                                obj_offset := 0\<rparr>, DInode)],
                      heap := (heap w)(next_addr w \<mapsto>
                                \<lparr>name = nm, vid = rsp_vdi_id rl,
                                 inode = Some (rsp_inode rr)\<rparr>),
                      next_addr := Suc (next_addr w)\<rparr>)"
    by (simp add: sd_vdi_open_def alloc_vdi_def lock_vdi_def sd_run_sdreq_def Let_def)
qed

text \<open>
  C4. \<^verbatim>\<open>sd_vdi_open\<close> is to return a handle only when the lock was acquired, the inode
  was fetched and the inode is not a snapshot, and to release and free otherwise. It does
  so for failures at the transport level. When the transport delivers the lock request and
  the cluster refuses the lock ("volume is locked" in the response), \<open>lock_vdi\<close> does not
  look at the refusal and \<open>sd_vdi_open\<close> returns a live handle with the identity of the
  response. When the lock is granted and the read comes back with the operation-level
  result "no object", \<open>sd_vdi_open\<close> returns a live handle as well. In both runs only the
  lock and the read request are sent, no release.
\<close>

theorem sd_vdi_open_operation_results_unchecked:
  "(\<exists>w'. sd_vdi_open sample_env ''vol1''
            (sample_world [reply SD_RES_SUCCESS SD_RES_VDI_LOCKED 9 (sample_inode [] 0 0),
                           reply SD_RES_SUCCESS SD_RES_SUCCESS 0 (sample_inode ''vol1'' 0 0)]) =
          Some (Some 0, w') \<and>
        heap w' 0 =
          Some \<lparr>name = ''vol1'', vid = 9, inode = Some (sample_inode ''vol1'' 0 0)\<rparr> \<and>
        map (\<lambda>q. opcode (fst q)) (trace w') = [SD_OP_LOCK_VDI, SD_OP_READ_OBJ]) \<and>
   (\<exists>w'. sd_vdi_open sample_env ''vol1''
            (sample_world [reply SD_RES_SUCCESS SD_RES_SUCCESS 7 (sample_inode [] 0 0),
                           reply SD_RES_SUCCESS SD_RES_NO_OBJ 0 (sample_inode [] 0 0)]) =
          Some (Some 0, w') \<and>
        heap w' 0 =
          Some \<lparr>name = ''vol1'', vid = 7, inode = Some (sample_inode [] 0 0)\<rparr> \<and>
        map (\<lambda>q. opcode (fst q)) (trace w') = [SD_OP_LOCK_VDI, SD_OP_READ_OBJ])"
  by (simp add: sd_vdi_open_def alloc_vdi_def lock_vdi_def sd_run_sdreq_def Let_def
      sample_world_def sample_env_def sample_inode_def scripted_def reply_def sd_res_defs
      hdr0_def)

subsection \<open>Enqueueing a request\<close>

lemma appended_append: "appended (es @ fs) = appended es @ appended fs"
  by (induction es rule: appended.induct) simp_all

lemma done_by_snoc:
  "done_by i (es @ [(j, op, l)]) = (if i = j then done_by i es @ [op] else done_by i es)"
  by (simp add: done_by_def)

lemma q_inv_init:
  "request_lock c0 = Unlocked \<Longrightarrow> q_inv c0 reqs (q_init c0 reqs)"
  by (auto simp add: q_inv_def q_init_def done_by_def queue_request_def)

lemma suffix_cases:
  assumes "xs @ op # rest = [a, b, c, d]"
  shows "(xs = [] \<and> op = a \<and> rest = [b, c, d]) \<or>
         (xs = [a] \<and> op = b \<and> rest = [c, d]) \<or>
         (xs = [a, b] \<and> op = c \<and> rest = [d]) \<or>
         (xs = [a, b, c] \<and> op = d \<and> rest = [])"
  using assms by (auto simp add: append_eq_Cons_conv Cons_eq_append_conv)

lemma exec_op_events:
  "exec_op i op c = Some c' \<Longrightarrow> events c' = events c @ [(i, op, request_lock c)]"
  by (auto simp add: exec_op_def split: option.splits)

lemma exec_op_lock:
  "exec_op i SdWriteLock c = Some c' \<Longrightarrow>
   request_lock c = Unlocked \<and> request_lock c' = WriteLocked i \<and>
   request_list c' = request_list c \<and> request_fd c' = request_fd c"
  by (auto simp add: exec_op_def sd_write_lock_def split: option.splits sd_rw_lock.splits)

lemma exec_op_add:
  "exec_op i (ListAddTail r) c = Some c' \<Longrightarrow>
   request_lock c' = request_lock c \<and>
   request_list c' = request_list c @ [r] \<and> request_fd c' = request_fd c"
  by (auto simp add: exec_op_def list_add_tail_def)

lemma exec_op_unlock:
  "exec_op i SdRwUnlock c = Some c' \<Longrightarrow> request_lock c = WriteLocked j \<Longrightarrow>
   request_lock c' = Unlocked \<and>
   request_list c' = request_list c \<and> request_fd c' = request_fd c"
  by (auto simp add: exec_op_def sd_rw_unlock_def)

lemma exec_op_notify:
  "exec_op i (EventfdXwrite n) c = Some c' \<Longrightarrow>
   request_lock c' = request_lock c \<and>
   request_list c' = request_list c \<and> request_fd c' = request_fd c + n"
  by (auto simp add: exec_op_def eventfd_xwrite_def)

lemma appended_snoc:
  "appended (es @ [(i, op, l)]) =
     appended es @ (case op of ListAddTail r \<Rightarrow> [r] | _ \<Rightarrow> [])"
  by (cases op) (simp_all add: appended_append)

lemma q_inv_step:
  assumes inv: "q_inv c0 reqs s" and st: "q_step i s = Some s'"
  shows "q_inv c0 reqs s'"
proof -
  let ?c = "q_cluster s"
  let ?N = "length reqs"
  let ?rest' = "(q_rest s)(i := tl (q_rest s i))"
  obtain op rest c' where r: "q_rest s i = op # rest"
    and e: "exec_op i op ?c = Some c'"
    and s': "s' = s\<lparr>q_cluster := c', q_rest := (q_rest s)(i := rest)\<rparr>"
    using st by (auto simp add: q_step_def split: list.splits option.splits)
  from inv have A: "\<And>j. done_by j (events ?c) @ q_rest s j =
            (if j < ?N then queue_request (reqs ! j) else [])"
    and B: "\<And>j. request_lock ?c = WriteLocked j \<longleftrightarrow>
            length (q_rest s j) = 3 \<or> length (q_rest s j) = 2"
    and D: "\<And>x r. x \<in> set (events ?c) \<Longrightarrow> fst (snd x) = ListAddTail r \<Longrightarrow>
            snd (snd x) = WriteLocked (fst x)"
    and L: "request_list ?c = request_list c0 @ appended (events ?c)"
    and F: "request_fd ?c = request_fd c0 + card {j. j < ?N \<and> q_rest s j = []}"
    by (simp_all add: q_inv_def)
  from inv have C: "request_lock ?c = Unlocked \<or> (\<exists>j. request_lock ?c = WriteLocked j)"
    unfolding q_inv_def by blast
  note ev = exec_op_events [OF e]
  from A [of i] r have iN: "i < ?N"
    by (cases "i < ?N") simp_all
  with A [of i] r have "done_by i (events ?c) @ op # rest =
      [SdWriteLock, ListAddTail (reqs ! i), SdRwUnlock, EventfdXwrite 1]"
    by (simp add: queue_request_def)
  from suffix_cases [OF this]
  consider (lock) "op = SdWriteLock" "rest = [ListAddTail (reqs ! i), SdRwUnlock, EventfdXwrite 1]"
    | (add) "op = ListAddTail (reqs ! i)" "rest = [SdRwUnlock, EventfdXwrite 1]"
    | (unlock) "op = SdRwUnlock" "rest = [EventfdXwrite 1]"
    | (notify) "op = EventfdXwrite 1" "rest = []"
    by blast
  then have rest_inv:
    "(\<forall>j. request_lock c' = WriteLocked j \<longleftrightarrow>
            length (((q_rest s)(i := rest)) j) = 3 \<or> length (((q_rest s)(i := rest)) j) = 2) \<and>
     (request_lock c' = Unlocked \<or> (\<exists>j. request_lock c' = WriteLocked j)) \<and>
     (\<forall>r. op = ListAddTail r \<longrightarrow> request_lock ?c = WriteLocked i) \<and>
     request_list c' = request_list ?c @ (case op of ListAddTail r \<Rightarrow> [r] | _ \<Rightarrow> []) \<and>
     request_fd c' = request_fd c0 + card {j. j < ?N \<and> ((q_rest s)(i := rest)) j = []}"
  proof cases
    case lock
    with e have l: "request_lock ?c = Unlocked" "request_lock c' = WriteLocked i"
      "request_list c' = request_list ?c" "request_fd c' = request_fd ?c"
      using exec_op_lock by blast+
    have nb: "length (q_rest s j) \<noteq> 3 \<and> length (q_rest s j) \<noteq> 2" for j
      using B [of j] l(1) by simp
    have b: "request_lock c' = WriteLocked j \<longleftrightarrow>
        length (((q_rest s)(i := rest)) j) = 3 \<or> length (((q_rest s)(i := rest)) j) = 2" for j
      using nb [of j] l(2) lock(2) by (cases "j = i") simp_all
    have k: "{j. j < ?N \<and> ((q_rest s)(i := rest)) j = []} = {j. j < ?N \<and> q_rest s j = []}"
      using lock r by auto
    have c: "request_lock c' = Unlocked \<or> (\<exists>j. request_lock c' = WriteLocked j)"
      using l(2) by simp
    have g: "\<forall>r. op = ListAddTail r \<longrightarrow> request_lock ?c = WriteLocked i"
      using lock(1) by simp
    have li: "request_list c' = request_list ?c @ (case op of ListAddTail r \<Rightarrow> [r] | _ \<Rightarrow> [])"
      using l lock(1) by simp
    have fd: "request_fd c' = request_fd c0 + card {j. j < ?N \<and> ((q_rest s)(i := rest)) j = []}"
      using l F k by simp
    from b c g li fd show ?thesis by blast
  next
    case add
    with e have l: "request_lock c' = request_lock ?c"
      "request_list c' = request_list ?c @ [reqs ! i]" "request_fd c' = request_fd ?c"
      using exec_op_add by blast+
    from r add B [of i] have h: "request_lock ?c = WriteLocked i" by simp
    have nb: "j \<noteq> i \<Longrightarrow> length (q_rest s j) \<noteq> 3 \<and> length (q_rest s j) \<noteq> 2" for j
      using B [of j] h by simp
    have b: "request_lock c' = WriteLocked j \<longleftrightarrow>
        length (((q_rest s)(i := rest)) j) = 3 \<or> length (((q_rest s)(i := rest)) j) = 2" for j
      using nb [of j] l(1) h add(2) by (cases "j = i") auto
    have k: "{j. j < ?N \<and> ((q_rest s)(i := rest)) j = []} = {j. j < ?N \<and> q_rest s j = []}"
      using add r by auto
    have c: "request_lock c' = Unlocked \<or> (\<exists>j. request_lock c' = WriteLocked j)"
      using l(1) h by simp
    have g: "\<forall>r. op = ListAddTail r \<longrightarrow> request_lock ?c = WriteLocked i"
      using add(1) h by simp
    have li: "request_list c' = request_list ?c @ (case op of ListAddTail r \<Rightarrow> [r] | _ \<Rightarrow> [])"
      using l add(1) by simp
    have fd: "request_fd c' = request_fd c0 + card {j. j < ?N \<and> ((q_rest s)(i := rest)) j = []}"
      using l F k by simp
    from b c g li fd show ?thesis by blast
  next
    case unlock
    from r unlock B [of i] have h: "request_lock ?c = WriteLocked i" by simp
    with e unlock have l: "request_lock c' = Unlocked"
      "request_list c' = request_list ?c" "request_fd c' = request_fd ?c"
      using exec_op_unlock by blast+
    have nb: "j \<noteq> i \<Longrightarrow> length (q_rest s j) \<noteq> 3 \<and> length (q_rest s j) \<noteq> 2" for j
      using B [of j] h by simp
    have b: "request_lock c' = WriteLocked j \<longleftrightarrow>
        length (((q_rest s)(i := rest)) j) = 3 \<or> length (((q_rest s)(i := rest)) j) = 2" for j
      using nb [of j] l(1) unlock(2) by (cases "j = i") simp_all
    have k: "{j. j < ?N \<and> ((q_rest s)(i := rest)) j = []} = {j. j < ?N \<and> q_rest s j = []}"
      using unlock r by auto
    have c: "request_lock c' = Unlocked \<or> (\<exists>j. request_lock c' = WriteLocked j)"
      using l(1) by simp
    have g: "\<forall>r. op = ListAddTail r \<longrightarrow> request_lock ?c = WriteLocked i"
      using unlock(1) by simp
    have li: "request_list c' = request_list ?c @ (case op of ListAddTail r \<Rightarrow> [r] | _ \<Rightarrow> [])"
      using l unlock(1) by simp
    have fd: "request_fd c' = request_fd c0 + card {j. j < ?N \<and> ((q_rest s)(i := rest)) j = []}"
      using l F k by simp
    from b c g li fd show ?thesis by blast
  next
    case notify
    with e have l: "request_lock c' = request_lock ?c"
      "request_list c' = request_list ?c" "request_fd c' = request_fd ?c + 1"
      using exec_op_notify by blast+
    from r notify B [of i] have h: "request_lock ?c \<noteq> WriteLocked i" by simp
    have b: "request_lock c' = WriteLocked j \<longleftrightarrow>
        length (((q_rest s)(i := rest)) j) = 3 \<or> length (((q_rest s)(i := rest)) j) = 2" for j
      using B [of j] l(1) h notify(2) by (cases "j = i") simp_all
    have "{j. j < ?N \<and> ((q_rest s)(i := rest)) j = []} =
        insert i {j. j < ?N \<and> q_rest s j = []}"
      using notify iN by auto
    moreover have "i \<notin> {j. j < ?N \<and> q_rest s j = []}" using r by simp
    moreover have "finite {j. j < ?N \<and> q_rest s j = []}" by simp
    ultimately have k: "card {j. j < ?N \<and> ((q_rest s)(i := rest)) j = []} =
        Suc (card {j. j < ?N \<and> q_rest s j = []})"
      by simp
    have c: "request_lock c' = Unlocked \<or> (\<exists>j. request_lock c' = WriteLocked j)"
      using C l(1) by simp
    have g: "\<forall>r. op = ListAddTail r \<longrightarrow> request_lock ?c = WriteLocked i"
      using notify(1) by simp
    have li: "request_list c' = request_list ?c @ (case op of ListAddTail r \<Rightarrow> [r] | _ \<Rightarrow> [])"
      using l notify(1) by simp
    have fd: "request_fd c' = request_fd c0 + card {j. j < ?N \<and> ((q_rest s)(i := rest)) j = []}"
      using l F k by simp
    from b c g li fd show ?thesis by blast
  qed
  have A': "done_by j (events c') @ ((q_rest s)(i := rest)) j =
            (if j < ?N then queue_request (reqs ! j) else [])" for j
  proof (cases "j = i")
    case True
    with A [of i] r show ?thesis by (simp add: ev done_by_snoc)
  next
    case False
    with A [of j] show ?thesis by (simp add: ev done_by_snoc)
  qed
  have D': "snd (snd x) = WriteLocked (fst x)"
    if "x \<in> set (events c')" and "fst (snd x) = ListAddTail r'" for x r'
  proof (cases "x \<in> set (events ?c)")
    case True
    with D that(2) show ?thesis by blast
  next
    case False
    with that(1) have "x = (i, op, request_lock ?c)" by (simp add: ev)
    with that(2) rest_inv show ?thesis by simp
  qed
  have L': "request_list c' = request_list c0 @ appended (events c')"
    using L rest_inv by (simp add: ev appended_snoc)
  from rest_inv have B': "\<forall>j. request_lock c' = WriteLocked j \<longleftrightarrow>
            length (((q_rest s)(i := rest)) j) = 3 \<or> length (((q_rest s)(i := rest)) j) = 2"
    and C': "request_lock c' = Unlocked \<or> (\<exists>j. request_lock c' = WriteLocked j)"
    and F': "request_fd c' = request_fd c0 + card {j. j < ?N \<and> ((q_rest s)(i := rest)) j = []}"
    by blast+
  have sel: "q_cluster s' = c'" "q_rest s' = (q_rest s)(i := rest)"
    by (simp_all add: s')
  show ?thesis
    unfolding q_inv_def sel
    apply (intro conjI allI ballI impI)
    subgoal for j by (rule A')
    subgoal for j using B' by blast
    subgoal using C' by blast
    subgoal for x r' using D' by blast
    subgoal by (rule L')
    subgoal by (rule F')
    done
qed

lemma q_inv_run:
  "q_inv c0 reqs s \<Longrightarrow> q_inv c0 reqs (q_run sch s)"
proof (induction sch arbitrary: s)
  case Nil
  then show ?case by simp
next
  case (Cons i sch)
  show ?case
  proof (cases "q_step i s")
    case None
    with Cons show ?thesis by simp
  next
    case (Some s')
    with Cons.prems have "q_inv c0 reqs s'" by (blast intro: q_inv_step)
    with Cons.IH Some show ?thesis by simp
  qed
qed

lemma q_inv_progress:
  assumes inv: "q_inv c0 reqs s" and todo: "q_rest s i \<noteq> []"
  shows "\<exists>j. q_step j s \<noteq> None"
proof -
  let ?c = "q_cluster s"
  from inv have A: "\<And>j. done_by j (events ?c) @ q_rest s j =
            (if j < length reqs then queue_request (reqs ! j) else [])"
    and B: "\<And>j. request_lock ?c = WriteLocked j \<longleftrightarrow>
            length (q_rest s j) = 3 \<or> length (q_rest s j) = 2"
    by (simp_all add: q_inv_def)
  from inv have C: "request_lock ?c = Unlocked \<or> (\<exists>j. request_lock ?c = WriteLocked j)"
    unfolding q_inv_def by blast
  have shape: "\<exists>op rest. q_rest s j = op # rest \<and>
      ((op = SdWriteLock \<and> length rest = 3) \<or> (op = ListAddTail (reqs ! j) \<and> length rest = 2) \<or>
       (op = SdRwUnlock \<and> length rest = 1) \<or> (op = EventfdXwrite 1 \<and> length rest = 0))"
    if "q_rest s j \<noteq> []" for j
  proof -
    from that obtain op rest where r: "q_rest s j = op # rest" by (cases "q_rest s j") auto
    from A [of j] r have "j < length reqs" by (cases "j < length reqs") simp_all
    with A [of j] r have "done_by j (events ?c) @ op # rest =
        [SdWriteLock, ListAddTail (reqs ! j), SdRwUnlock, EventfdXwrite 1]"
      by (simp add: queue_request_def)
    from suffix_cases [OF this] r show ?thesis by auto
  qed
  from C show ?thesis
  proof
    assume u: "request_lock ?c = Unlocked"
    from shape [OF todo] obtain op rest where r: "q_rest s i = op # rest"
      and k: "(op = SdWriteLock \<and> length rest = 3) \<or> (op = ListAddTail (reqs ! i) \<and> length rest = 2) \<or>
       (op = SdRwUnlock \<and> length rest = 1) \<or> (op = EventfdXwrite 1 \<and> length rest = 0)"
      by blast
    from B [of i] u r have "length rest \<noteq> 2 \<and> length rest \<noteq> 1" by simp
    with k have "op = SdWriteLock \<or> op = EventfdXwrite 1" by auto
    with u r have "q_step i s \<noteq> None"
      by (auto simp add: q_step_def exec_op_def sd_write_lock_def)
    then show ?thesis by blast
  next
    assume "\<exists>j. request_lock ?c = WriteLocked j"
    then obtain j where h: "request_lock ?c = WriteLocked j" by blast
    with B [of j] have len: "length (q_rest s j) = 3 \<or> length (q_rest s j) = 2" by simp
    then have "q_rest s j \<noteq> []" by auto
    from shape [OF this] obtain op rest where r: "q_rest s j = op # rest"
      and k: "(op = SdWriteLock \<and> length rest = 3) \<or> (op = ListAddTail (reqs ! j) \<and> length rest = 2) \<or>
       (op = SdRwUnlock \<and> length rest = 1) \<or> (op = EventfdXwrite 1 \<and> length rest = 0)"
      by blast
    from len r k have "op = ListAddTail (reqs ! j) \<or> op = SdRwUnlock" by auto
    with h r have "q_step j s \<noteq> None"
      by (auto simp add: q_step_def exec_op_def sd_rw_unlock_def)
    then show ?thesis by blast
  qed
qed

text \<open>
  C7. Any number of threads call \<^verbatim>\<open>queue_request\<close>, each on its own request, on a queue
  whose lock is free at the start, and are interleaved in any way. In every state of every
  such run: each append to the request list was made while the lock was held in write mode
  by the very thread that appended; the request list is the initial list followed by the
  appended requests in the order of the appends, so each append went to the tail; the
  calls a thread has made and the calls it has still to make are, in this order, lock,
  append of its request, release, notification with 1, so a thread that has finished has
  appended its request once and, after its release, notified the counting signal once with
  one unit; the counting signal stands at its initial value plus the number of threads that
  have finished, one unit for each request enqueued; and as long as some thread has a call
  left, some thread can make a step, so no caller waits for ever.
\<close>

theorem queue_request_spec:
  assumes "request_lock c0 = Unlocked"
    and "s = q_run sch (q_init c0 reqs)"
  shows "(\<forall>e \<in> set (events (q_cluster s)).
            \<forall>r. fst (snd e) = ListAddTail r \<longrightarrow> snd (snd e) = WriteLocked (fst e)) \<and>
         request_list (q_cluster s) = request_list c0 @ appended (events (q_cluster s)) \<and>
         (\<forall>i < length reqs.
            done_by i (events (q_cluster s)) @ q_rest s i = queue_request (reqs ! i)) \<and>
         (\<forall>i < length reqs.
            q_rest s i = [] \<longrightarrow>
            done_by i (events (q_cluster s)) =
              [SdWriteLock, ListAddTail (reqs ! i), SdRwUnlock, EventfdXwrite 1]) \<and>
         request_fd (q_cluster s) =
           request_fd c0 + card {i. i < length reqs \<and> q_rest s i = []} \<and>
         ((\<exists>i. q_rest s i \<noteq> []) \<longrightarrow> (\<exists>j. q_step j s \<noteq> None))"
proof -
  from assms have inv: "q_inv c0 reqs s"
    by (simp add: q_inv_init q_inv_run)
  then have A: "\<And>j. done_by j (events (q_cluster s)) @ q_rest s j =
            (if j < length reqs then queue_request (reqs ! j) else [])"
    by (simp add: q_inv_def)
  have a1: "\<forall>i < length reqs.
            done_by i (events (q_cluster s)) @ q_rest s i = queue_request (reqs ! i)"
    using A by simp
  have a2: "\<forall>i < length reqs.
            q_rest s i = [] \<longrightarrow>
            done_by i (events (q_cluster s)) =
              [SdWriteLock, ListAddTail (reqs ! i), SdRwUnlock, EventfdXwrite 1]"
  proof (intro allI impI)
    fix i assume "i < length reqs" and "q_rest s i = []"
    with A [of i] show "done_by i (events (q_cluster s)) =
              [SdWriteLock, ListAddTail (reqs ! i), SdRwUnlock, EventfdXwrite 1]"
      by (simp add: queue_request_def)
  qed
  have p: "(\<exists>i. q_rest s i \<noteq> []) \<longrightarrow> (\<exists>j. q_step j s \<noteq> None)"
    using q_inv_progress [OF inv] by blast
  from inv have rest: "(\<forall>e \<in> set (events (q_cluster s)).
            \<forall>r. fst (snd e) = ListAddTail r \<longrightarrow> snd (snd e) = WriteLocked (fst e)) \<and>
         request_list (q_cluster s) = request_list c0 @ appended (events (q_cluster s)) \<and>
         request_fd (q_cluster s) =
           request_fd c0 + card {i. i < length reqs \<and> q_rest s i = []}"
    unfolding q_inv_def by blast
  from rest a1 a2 p show ?thesis by blast
qed

theorem queue_request_spec_witness:
  "request_lock sample_cluster = Unlocked \<and>
   events (q_cluster (q_run [0, 1, 0, 1, 0, 1, 0, 1, 1, 1]
             (q_init sample_cluster [sample_request 3, sample_request 4]))) =
     [(0, SdWriteLock, Unlocked),
      (0, ListAddTail (sample_request 3), WriteLocked 0),
      (0, SdRwUnlock, WriteLocked 0),
      (1, SdWriteLock, Unlocked),
      (0, EventfdXwrite 1, WriteLocked 1),
      (1, ListAddTail (sample_request 4), WriteLocked 1),
      (1, SdRwUnlock, WriteLocked 1),
      (1, EventfdXwrite 1, Unlocked)] \<and>
   request_list (q_cluster (q_run [0, 1, 0, 1, 0, 1, 0, 1, 1, 1]
             (q_init sample_cluster [sample_request 3, sample_request 4]))) =
     [sample_request 3, sample_request 4] \<and>
   request_fd (q_cluster (q_run [0, 1, 0, 1, 0, 1, 0, 1, 1, 1]
             (q_init sample_cluster [sample_request 3, sample_request 4]))) = 2 \<and>
   q_rest (q_run [0, 0, 0, 0] (q_init sample_cluster [sample_request 3])) 0 = []"
proof -
  let ?s = "q_run [0, 1, 0, 1, 0, 1, 0, 1, 1, 1]
              (q_init sample_cluster [sample_request 3, sample_request 4])"
  have u: "request_lock sample_cluster = Unlocked"
    by (simp add: sample_cluster_def)
  have ev: "events (q_cluster ?s) =
     [(0, SdWriteLock, Unlocked),
      (0, ListAddTail (sample_request 3), WriteLocked 0),
      (0, SdRwUnlock, WriteLocked 0),
      (1, SdWriteLock, Unlocked),
      (0, EventfdXwrite 1, WriteLocked 1),
      (1, ListAddTail (sample_request 4), WriteLocked 1),
      (1, SdRwUnlock, WriteLocked 1),
      (1, EventfdXwrite 1, Unlocked)]"
    by (simp add: q_defs)
  have fd: "request_fd (q_cluster ?s) = 2"
    by (simp add: q_defs)
  have one: "q_rest (q_run [0, 0, 0, 0] (q_init sample_cluster [sample_request 3])) 0 = []"
    by (simp add: q_defs)
  from queue_request_spec [OF u refl, of "[0, 1, 0, 1, 0, 1, 0, 1, 1, 1]"
      "[sample_request 3, sample_request 4]"]
  have "request_list (q_cluster ?s) = request_list sample_cluster @ appended (events (q_cluster ?s))"
    by blast
  with ev have "request_list (q_cluster ?s) = [sample_request 3, sample_request 4]"
    by (simp add: sample_cluster_def)
  with u ev fd one show ?thesis by blast
qed

subsection \<open>No operation reads memory it has not written\<close>

text \<open>
  The undefined outcome \<open>None\<close> of snapshot, clone and open never occurs: the identity and
  the inode buffer are read only after they have been written, and open works on the handle
  it has just allocated.
\<close>

lemma sd_vdi_snapshot_defined:
  "\<exists>r w'. sd_vdi_snapshot E nm tg w = Some (r, w')"
proof (cases "tg = None \<or> tg = Some [] \<or> nm = None \<or> nm = Some []")
  case True
  then show ?thesis
    by (auto simp add: sd_vdi_snapshot_def split: option.splits)
next
  case False
  then obtain n t where nt: "nm = Some n" "n \<noteq> []" "tg = Some t" "t \<noteq> []"
    by auto
  obtain r v w1 where f: "find_vdi E n (Some t) False w = (r, v, w1)"
    by (metis prod_cases3)
  obtain r2 buf w2 where g: "vdi_read_inode E n None True w1 = Some (r2, buf, w2)"
    using vdi_read_inode_total by blast
  show ?thesis
  proof (cases "r2 = SD_RES_SUCCESS")
    case True
    with g vdi_read_inode_success obtain ino where "buf = Some ino" by blast
    with nt f g True show ?thesis
      by (simp add: sd_vdi_snapshot_def)
  next
    case False
    with nt f g show ?thesis
      by (simp add: sd_vdi_snapshot_def)
  qed
qed

lemma sd_vdi_clone_defined:
  "\<exists>r w'. sd_vdi_clone E srcname srctag dstname w = Some (r, w')"
proof (cases "dstname = None \<or> dstname = Some [] \<or> srctag = None \<or> srctag = Some [] \<or>
    srcname = None \<or> srcname = Some []")
  case True
  then show ?thesis
    using sd_vdi_clone_invalid by blast
next
  case False
  then obtain d t n where dtn: "dstname = Some d" "d \<noteq> []" "srctag = Some t" "t \<noteq> []"
      "srcname = Some n" "n \<noteq> []"
    by auto
  obtain r buf w1 where g: "vdi_read_inode E n (Some t) False w = Some (r, buf, w1)"
    using vdi_read_inode_total by blast
  show ?thesis
  proof (cases "r = SD_RES_SUCCESS")
    case True
    with g vdi_read_inode_success obtain ino where "buf = Some ino" by blast
    with dtn g True sd_vdi_clone_unfold [OF dtn(2,4,6) g] show ?thesis
      by simp
  next
    case False
    with dtn g sd_vdi_clone_unfold [OF dtn(2,4,6) g] show ?thesis
      by simp
  qed
qed

lemma sd_vdi_open_defined:
  "\<exists>h w'. sd_vdi_open E nm w = Some (h, w')"
  by (auto simp add: sd_vdi_open_def alloc_vdi_def lock_vdi_def unlock_vdi_def
      out_unlock_def out_free_def sd_run_sdreq_def Let_def split: prod.splits)

end
